theory Spec2Isabelle
  imports Complex_Main
begin

section \<open>The FractalJulia object\<close>

text \<open>
  The class \<open>FractalJulia\<close> of \<open>proyecto.py\<close>. The output array has a shape, so the two
  dimensions of an existing instance are natural numbers; the iteration cap is whatever
  integer the caller passed. The attributes \<open>c_real\<close> and \<open>c_imag\<close> do not exist before the
  first run: they are optional fields. The executor, the lock and the condition variable
  are part of the run model further down.

  Two things the program takes from its platform are not fixed by the source and are
  parameters here. The floating-point arithmetic of the interpreter is a parameter of the
  kernel (its operations round, and can raise). The allocation of the output array is a
  parameter of the constructor (NumPy refuses some shapes, and memory can run out).
  The grids of a run are then computed as the arithmetic of the real and complex numbers
  gives them (\<open>fractal_julia_exacta\<close>); the constant \<open>c\<close> and the two elapsed times are
  real numbers.
\<close>

datatype error =
  ValueError | ZeroDivisionError | TypeError | AttributeError | OverflowError | MemoryError

type_synonym matriz = "int list list"

record fractal =
  ancho :: nat
  alto :: nat
  max_iteraciones :: int
  salida :: matriz
  tiempo_comunicacion_total :: real
  c_real :: "real option"
  c_imag :: "real option"

text \<open>\<open>np.zeros((filas, columnas), dtype=int)\<close>.\<close>

definition zeros :: "nat \<Rightarrow> nat \<Rightarrow> matriz" where
  "zeros filas columnas = replicate filas (replicate columnas 0)"

text \<open>
  \<open>__init__\<close>: stores the three parameters, allocates the zero grid and sets the
  communication-time accumulator to 0. The only statement that can fail is the allocation:
  \<open>np.zeros\<close> raises \<open>ValueError\<close> on a negative dimension, and for a non-negative shape it
  raises what the platform decides (\<open>ValueError\<close> for a shape NumPy refuses, such as a
  dimension of \<open>2**63\<close>; \<open>MemoryError\<close> when the memory is not there). \<open>asignar filas
  columnas\<close> is that decision: the exception raised for the shape, or \<open>None\<close> when the
  array is allocated. Nothing compares \<open>alto\<close> with the number of fragments.
\<close>

definition init :: "(nat \<Rightarrow> nat \<Rightarrow> error option) \<Rightarrow> int \<Rightarrow> int \<Rightarrow> int \<Rightarrow> error + fractal" where
  "init asignar an al mi =
     (if an < 0 \<or> al < 0 then Inl ValueError
      else case asignar (nat al) (nat an) of
             Some e \<Rightarrow> Inl e
           | None \<Rightarrow>
               Inr \<lparr>ancho = nat an, alto = nat al, max_iteraciones = mi,
                     salida = zeros (nat al) (nat an),
                     tiempo_comunicacion_total = 0,
                     c_real = None, c_imag = None\<rparr>)"

subsection \<open>The escape-time kernel\<close>

text \<open>
  The two floating-point operations of the loop, on whatever numbers \<open>z\<close> and \<open>c\<close> are:
  the test \<open>abs(z) <= 2\<close> (\<open>abs\<close> of a complex number raises \<open>OverflowError\<close> when the
  modulus does not fit a float) and the update \<open>z**2 + c\<close> (the power raises
  \<open>OverflowError\<close> on overflow). Each returns its value or the exception it raises.
\<close>

record 'z aritmetica =
  abs_menor_igual_2 :: "'z \<Rightarrow> error + bool"
  cuadrado_mas :: "'z \<Rightarrow> 'z \<Rightarrow> error + 'z"

text \<open>
  \<open>fractal_julia\<close>: the loop \<open>while abs(z) <= 2 and n < self.max_iteraciones\<close>, with the
  loop variables \<open>z\<close> and \<open>n\<close> as arguments; \<open>and\<close> evaluates the test on \<open>z\<close> first. An
  exception of an operation leaves the loop and the function. The distance of \<open>n\<close> to the
  cap decreases, so the loop terminates.
\<close>

function bucle_julia :: "'z aritmetica \<Rightarrow> int \<Rightarrow> 'z \<Rightarrow> 'z \<Rightarrow> int \<Rightarrow> error + int" where
  "bucle_julia ar m c z n =
     (case abs_menor_igual_2 ar z of
        Inl e \<Rightarrow> Inl e
      | Inr dentro \<Rightarrow>
          if dentro \<and> n < m
          then (case cuadrado_mas ar z c of
                  Inl e \<Rightarrow> Inl e
                | Inr z' \<Rightarrow> bucle_julia ar m c z' (n + 1))
          else Inr n)"
  by pat_completeness auto
termination
  by (relation "measure (\<lambda>(ar, m, c, z, n). nat (m - n))") auto

declare bucle_julia.simps [simp del]

definition fractal_julia :: "'z aritmetica \<Rightarrow> fractal \<Rightarrow> 'z \<Rightarrow> 'z \<Rightarrow> error + int" where
  "fractal_julia ar self c z = bucle_julia ar (max_iteraciones self) c z 0"

text \<open>
  The value of \<open>z\<close> after \<open>k\<close> rounds of \<open>z = z**2 + c\<close>, and what the test of the loop
  gives on it: true, false, or an exception (raised by the test, or before by an update).
  These state what the kernel counts.
\<close>

fun orbita :: "'z aritmetica \<Rightarrow> 'z \<Rightarrow> 'z \<Rightarrow> nat \<Rightarrow> error + 'z" where
  "orbita ar c z 0 = Inr z"
| "orbita ar c z (Suc k) =
     (case cuadrado_mas ar z c of Inl e \<Rightarrow> Inl e | Inr z' \<Rightarrow> orbita ar c z' k)"

definition dentro_en :: "'z aritmetica \<Rightarrow> 'z \<Rightarrow> 'z \<Rightarrow> nat \<Rightarrow> bool" where
  "dentro_en ar c z j =
     (case orbita ar c z j of Inl e \<Rightarrow> False | Inr w \<Rightarrow> abs_menor_igual_2 ar w = Inr True)"

definition fuera_en :: "'z aritmetica \<Rightarrow> 'z \<Rightarrow> 'z \<Rightarrow> nat \<Rightarrow> bool" where
  "fuera_en ar c z k =
     (case orbita ar c z k of Inl e \<Rightarrow> False | Inr w \<Rightarrow> abs_menor_igual_2 ar w = Inr False)"

definition falla_en :: "'z aritmetica \<Rightarrow> 'z \<Rightarrow> 'z \<Rightarrow> nat \<Rightarrow> error \<Rightarrow> bool" where
  "falla_en ar c z k e =
     (case orbita ar c z k of Inl e' \<Rightarrow> e' = e | Inr w \<Rightarrow> abs_menor_igual_2 ar w = Inl e)"

text \<open>
  The arithmetic of the complex numbers: nothing is rounded and nothing raises. The loop
  over it returns a count (lemma \<open>fractal_julia_exacta_eq\<close>).
\<close>

definition exacta :: "complex aritmetica" where
  "exacta = \<lparr>abs_menor_igual_2 = (\<lambda>z. Inr (cmod z \<le> 2)),
             cuadrado_mas = (\<lambda>z c. Inr (z ^ 2 + c))\<rparr>"

function bucle_exacto :: "int \<Rightarrow> complex \<Rightarrow> complex \<Rightarrow> int \<Rightarrow> int" where
  "bucle_exacto m c z n =
     (if cmod z \<le> 2 \<and> n < m then bucle_exacto m c (z ^ 2 + c) (n + 1) else n)"
  by pat_completeness auto
termination
  by (relation "measure (\<lambda>(m, c, z, n). nat (m - n))") auto

declare bucle_exacto.simps [simp del]

definition fractal_julia_exacta :: "fractal \<Rightarrow> complex \<Rightarrow> complex \<Rightarrow> int" where
  "fractal_julia_exacta self c z = bucle_exacto (max_iteraciones self) c z 0"

subsection \<open>The fragment plan\<close>

text \<open>
  Lines 47 to 49 of \<open>generar_fractal_paralelo\<close>: the band size \<open>self.alto // 4\<close>, the list
  comprehension over \<open>range(4)\<close>, and the assignment to \<open>fragmentos[-1]\<close>.
\<close>

definition fragmentos :: "nat \<Rightarrow> (nat \<times> nat) list" where
  "fragmentos h =
     (let tam = h div 4;
          fs = map (\<lambda>i. (i * tam, (i + 1) * tam)) [0..<4]
      in fs[length fs - 1 := (fst (last fs), h)])"

text \<open>The rows of a fragment: the half-open range \<open>range(inicio_y, fin_y)\<close>.\<close>

definition filas :: "nat \<times> nat \<Rightarrow> nat set" where
  "filas f = {fst f..<snd f}"

subsection \<open>Computing a fragment and the sequential run\<close>

text \<open>
  The coordinate of the cell \<open>(x, y)\<close>, as both \<open>generar_fractal\<close> (lines 34, 36, 37) and
  \<open>generar_fractal_secuencial\<close> (lines 90, 92, 93) compute it. The two quotients are only
  evaluated inside the loops over \<open>range(self.alto)\<close> and \<open>range(self.ancho)\<close>, hence with a
  nonzero divisor.
\<close>

definition punto :: "fractal \<Rightarrow> nat \<Rightarrow> nat \<Rightarrow> complex" where
  "punto self x y =
     Complex (real x * (3 / real (ancho self)) - 2) (real y * (3 / real (alto self)) - 1.5)"

text \<open>
  The assignment \<open>a[i, j] = v\<close> to one cell. Every index the program uses lies inside the
  array it was derived from (lemmas \<open>forma_bloque\<close> and \<open>forma_secuencial\<close> below).
\<close>

definition poner :: "matriz \<Rightarrow> nat \<Rightarrow> nat \<Rightarrow> int \<Rightarrow> matriz" where
  "poner a i j v = a[i := (a ! i)[j := v]]"

text \<open>The shape \<open>(filas, columnas)\<close> of an array.\<close>

definition forma :: "matriz \<Rightarrow> nat \<Rightarrow> nat \<Rightarrow> bool" where
  "forma a nf nc = (length a = nf \<and> list_all (\<lambda>r. length r = nc) a)"

text \<open>
  Lines 32 to 39 of \<open>generar_fractal\<close>: the zero block and the two nested loops, each cell
  receiving the count of the kernel in the arithmetic of the complex numbers.
\<close>

definition bloque :: "fractal \<Rightarrow> complex \<Rightarrow> nat \<Rightarrow> nat \<Rightarrow> matriz" where
  "bloque self c inicio_y fin_y =
     foldl (\<lambda>fragmento_salida y.
              foldl (\<lambda>fragmento_salida x.
                       poner fragmento_salida (y - inicio_y) x (fractal_julia_exacta self c (punto self x y)))
                    fragmento_salida [0..<ancho self])
           (zeros (fin_y - inicio_y) (ancho self)) [inicio_y..<fin_y]"

text \<open>
  \<open>generar_fractal\<close>: reads \<open>self.c_real\<close> and \<open>self.c_imag\<close> (an \<open>AttributeError\<close> before the
  first run has set them), unpacks the fragment, allocates the block (\<open>np.zeros\<close> raises on
  a negative number of rows) and fills it.
\<close>

definition generar_fractal :: "fractal \<Rightarrow> nat \<times> nat \<Rightarrow> error + matriz" where
  "generar_fractal self fragmento =
     (case (c_real self, c_imag self) of
        (Some cr, Some ci) \<Rightarrow>
          (case fragmento of (inicio_y, fin_y) \<Rightarrow>
             if fin_y < inicio_y then Inl ValueError
             else Inr (bloque self (Complex cr ci) inicio_y fin_y))
      | _ \<Rightarrow> Inl AttributeError)"

text \<open>
  \<open>generar_fractal_secuencial\<close>: sets the constant and writes every cell of \<open>self.salida\<close>
  in row-major order. The elapsed time it returns is the difference of two clock readings;
  it is an input of the metrics below. Plotting is not modelled.
\<close>

definition generar_fractal_secuencial :: "fractal \<Rightarrow> real \<Rightarrow> real \<Rightarrow> fractal" where
  "generar_fractal_secuencial self cr ci =
     (let self1 = self\<lparr>c_real := Some cr, c_imag := Some ci\<rparr>
      in self1\<lparr>salida :=
           foldl (\<lambda>a y.
                    foldl (\<lambda>a x. poner a y x (fractal_julia_exacta self1 (Complex cr ci) (punto self1 x y)))
                          a [0..<ancho self1])
                 (salida self1) [0..<alto self1]\<rparr>)"

subsection \<open>The completion callback\<close>

text \<open>
  \<open>_fragmento_completado\<close>, the part under \<open>self.bloqueo_salida\<close>: \<open>future.result()\<close> raises
  what the task raised; the slice assignment \<open>self.salida[inicio_y:fin_y, :] = ...\<close>
  replaces the selected rows (a slice is clipped to the array) and raises \<open>ValueError\<close> when
  the block does not have the shape of the slice (NumPy would also accept a block it can
  broadcast to that shape; the program never passes one); then the communication time
  \<open>time.time() - future.start_time\<close> is added to the accumulator. The attribute
  \<open>tiempo_comunicacion_total\<close> exists from \<open>__init__\<close> on, so the \<open>hasattr\<close> test holds.
  \<open>ahora\<close> is the reading of \<open>time.time()\<close> on line 77.
\<close>

definition fragmento_completado ::
    "fractal \<Rightarrow> error + matriz \<Rightarrow> nat \<times> nat \<Rightarrow> real \<Rightarrow> real \<Rightarrow> error + fractal" where
  "fragmento_completado self resultado fragmento inicio ahora =
     (case resultado of
        Inl e \<Rightarrow> Inl e
      | Inr fragmento_salida \<Rightarrow>
          (case fragmento of (inicio_y, fin_y) \<Rightarrow>
             let n = length (salida self) in
             if forma fragmento_salida (min fin_y n - min inicio_y n) (ancho self)
             then Inr (self\<lparr>salida := take inicio_y (salida self) @ fragmento_salida
                                        @ drop (max inicio_y fin_y) (salida self),
                            tiempo_comunicacion_total :=
                              tiempo_comunicacion_total self + (ahora - inicio)\<rparr>)
             else Inl ValueError))"

section \<open>One parallel run as a transition system\<close>

text \<open>
  \<open>generar_fractal_paralelo\<close> runs on the calling thread (the orchestrator) while the four
  tasks and their callbacks run on the threads of the executor. The run is modelled by its
  atomic steps; a schedule is the list of steps in the order in which they happen.

  A future carries the two attributes the code attaches to it, the value its task
  computes (a function of attributes that do not change during the run), whether a
  callback has been registered, and how far its task and callback have got:
  \<^item> \<open>Ejecutando\<close>: the task is queued or running;
  \<^item> \<open>Terminado\<close>: the future is done and no callback was registered by then;
  \<^item> \<open>PorFusionar\<close>: the future is done and its worker is about to call the callback;
  \<^item> \<open>Fusionado\<close>: the callback has left \<open>with self.bloqueo_salida\<close> (block merged) and is
    about to enter \<open>with self.condicion\<close>;
  \<^item> \<open>Notificado\<close>: the callback has called \<open>notify()\<close> and returned;
  \<^item> \<open>Fallido\<close>: the callback raised (the library logs the exception and drops it).
\<close>

datatype fase = Ejecutando | Terminado | PorFusionar | Fusionado | Notificado | Fallido

record futuro =
  fragmento :: "nat \<times> nat"
  start_time :: real
  resultado :: "error + matriz"
  fase :: fase
  registrado :: bool

text \<open>
  The orchestrator: inside \<open>with self.condicion\<close> registering the callback of the future
  with the given index; blocked in \<open>self.condicion.wait()\<close>; notified and about to take the
  lock again; back from \<open>wait()\<close>.
\<close>

datatype orquestador = Registrando nat | Esperando | Senalado | Retornado

record sistema =
  objeto :: fractal
  futuros :: "futuro list"
  orq :: orquestador

text \<open>
  Lines 43 to 59: set the constant, plan the fragments, submit one task per fragment
  (\<open>arranque i\<close> is the reading of \<open>time.time()\<close> on line 54 for the \<open>i\<close>-th future) and enter
  \<open>with self.condicion\<close>. Nothing here touches \<open>tiempo_comunicacion_total\<close>.
\<close>

definition lanzar :: "fractal \<Rightarrow> real \<Rightarrow> real \<Rightarrow> (nat \<Rightarrow> real) \<Rightarrow> sistema" where
  "lanzar self cr ci arranque =
     (let self1 = self\<lparr>c_real := Some cr, c_imag := Some ci\<rparr>
      in \<lparr>objeto = self1,
          futuros = map (\<lambda>(i, f). \<lparr>fragmento = f, start_time = arranque i,
                                   resultado = generar_fractal self1 f,
                                   fase = Ejecutando, registrado = False\<rparr>)
                        (enumerate 0 (fragmentos (alto self1))),
          orq = Registrando 0\<rparr>)"

text \<open>
  The condition variable's lock is held by the orchestrator from \<open>with self.condicion\<close>
  until \<open>wait()\<close> releases it.
\<close>

fun condicion_libre :: "orquestador \<Rightarrow> bool" where
  "condicion_libre (Registrando k) = False"
| "condicion_libre Esperando = True"
| "condicion_libre Senalado = True"
| "condicion_libre Retornado = True"

text \<open>
  The steps.
  \<^item> \<open>Termina i\<close>: task \<open>i\<close> finishes; the future becomes done. Callbacks registered before
    this moment are called by the worker, later ones by the registering thread.
  \<^item> \<open>Fusiona i ahora\<close>: the worker of future \<open>i\<close> runs the locked part of the callback.
  \<^item> \<open>Notifica i\<close>: that callback takes the condition's lock, calls \<open>notify()\<close>, which wakes
    the orchestrator if it is waiting and does nothing otherwise, and returns.
  \<^item> \<open>Registra ahora\<close>: the orchestrator calls \<open>add_done_callback\<close> on the next future: the
    callback is stored if the future is not done, and is called at once, on the
    orchestrator's thread, if it is (the lock of a \<open>Condition\<close> is reentrant, and
    \<open>notify()\<close> finds no waiter).
  \<^item> \<open>Espera\<close>: after the last registration the orchestrator calls \<open>wait()\<close>.
  \<^item> \<open>Despierta\<close>: the notified orchestrator takes the lock again and \<open>wait()\<close> returns.
\<close>

datatype evento =
  Termina nat | Fusiona nat real | Notifica nat | Registra real | Espera | Despierta

definition poner_fase :: "nat \<Rightarrow> fase \<Rightarrow> sistema \<Rightarrow> sistema" where
  "poner_fase i ph s = s\<lparr>futuros := (futuros s)[i := (futuros s ! i)\<lparr>fase := ph\<rparr>]\<rparr>"

fun paso :: "evento \<Rightarrow> sistema \<Rightarrow> sistema option" where
  "paso (Termina i) s =
     (if i < length (futuros s) \<and> fase (futuros s ! i) = Ejecutando
      then Some (poner_fase i (if registrado (futuros s ! i) then PorFusionar else Terminado) s)
      else None)"
| "paso (Fusiona i ahora) s =
     (if i < length (futuros s) \<and> fase (futuros s ! i) = PorFusionar
      then (let f = futuros s ! i in
            case fragmento_completado (objeto s) (resultado f) (fragmento f) (start_time f) ahora of
              Inl e \<Rightarrow> Some (poner_fase i Fallido s)
            | Inr self' \<Rightarrow> Some (poner_fase i Fusionado (s\<lparr>objeto := self'\<rparr>)))
      else None)"
| "paso (Notifica i) s =
     (if i < length (futuros s) \<and> fase (futuros s ! i) = Fusionado \<and> condicion_libre (orq s)
      then Some (poner_fase i Notificado
                   (s\<lparr>orq := (if orq s = Esperando then Senalado else orq s)\<rparr>))
      else None)"
| "paso (Registra ahora) s =
     (case orq s of
        Registrando k \<Rightarrow>
          if k < length (futuros s) then
            (let f = futuros s ! k in
             if fase f = Ejecutando
             then Some (s\<lparr>futuros := (futuros s)[k := f\<lparr>registrado := True\<rparr>],
                          orq := Registrando (k + 1)\<rparr>)
             else if fase f = Terminado
             then (case fragmento_completado (objeto s) (resultado f) (fragmento f)
                          (start_time f) ahora of
                     Inl e \<Rightarrow> Some (poner_fase k Fallido (s\<lparr>orq := Registrando (k + 1)\<rparr>))
                   | Inr self' \<Rightarrow>
                       Some (poner_fase k Notificado
                               (s\<lparr>objeto := self', orq := Registrando (k + 1)\<rparr>)))
             else None)
          else None
      | _ \<Rightarrow> None)"
| "paso Espera s =
     (case orq s of
        Registrando k \<Rightarrow> if k = length (futuros s) then Some (s\<lparr>orq := Esperando\<rparr>) else None
      | _ \<Rightarrow> None)"
| "paso Despierta s = (if orq s = Senalado then Some (s\<lparr>orq := Retornado\<rparr>) else None)"

text \<open>Running a schedule; \<open>None\<close> when one of its steps cannot happen in the state reached.\<close>

fun ejecutar :: "evento list \<Rightarrow> sistema \<Rightarrow> sistema option" where
  "ejecutar [] s = Some s"
| "ejecutar (e # es) s = (case paso e s of None \<Rightarrow> None | Some s' \<Rightarrow> ejecutar es s')"

text \<open>A fragment is merged once the locked part of its callback has run.\<close>

definition fusionado :: "futuro \<Rightarrow> bool" where
  "fusionado f = (fase f = Fusionado \<or> fase f = Notificado)"

definition todos_fusionados :: "sistema \<Rightarrow> bool" where
  "todos_fusionados s = list_all fusionado (futuros s)"

section \<open>The life of an instance\<close>

text \<open>
  Whatever the interleaving, and whether or not runs overlap, an instance changes only
  through these atomic actions: a sequential run, the start of a parallel run (lines 43
  and 44), and the locked part of a completion callback. A callback that raises leaves the
  instance as it was.
\<close>

datatype accion =
  Secuencial real real
| Paralelo real real
| Completado "error + matriz" "nat \<times> nat" real real

fun aplicar :: "accion \<Rightarrow> fractal \<Rightarrow> fractal" where
  "aplicar (Secuencial cr ci) self = generar_fractal_secuencial self cr ci"
| "aplicar (Paralelo cr ci) self = self\<lparr>c_real := Some cr, c_imag := Some ci\<rparr>"
| "aplicar (Completado r f t0 t1) self =
     (case fragmento_completado self r f t0 t1 of Inl e \<Rightarrow> self | Inr self' \<Rightarrow> self')"

fun vida :: "accion list \<Rightarrow> fractal \<Rightarrow> fractal" where
  "vida [] self = self"
| "vida (a # as) self = vida as (aplicar a self)"

text \<open>
  The communication times measured along a life: one per completion whose callback got as
  far as line 77.
\<close>

fun medida :: "accion \<Rightarrow> fractal \<Rightarrow> real list" where
  "medida (Completado r f t0 t1) self =
     (case fragmento_completado self r f t0 t1 of Inl e \<Rightarrow> [] | Inr self' \<Rightarrow> [t1 - t0])"
| "medida (Secuencial cr ci) self = []"
| "medida (Paralelo cr ci) self = []"

fun medidas :: "accion list \<Rightarrow> fractal \<Rightarrow> real list" where
  "medidas [] self = []"
| "medidas (a # as) self = medida a self @ medidas as (aplicar a self)"

text \<open>The clock does not run backwards between the submission and the merge.\<close>

fun reloj_ok :: "accion \<Rightarrow> bool" where
  "reloj_ok (Completado r f t0 t1) = (t0 \<le> t1)"
| "reloj_ok (Secuencial cr ci) = True"
| "reloj_ok (Paralelo cr ci) = True"

text \<open>The actions that a parallel run adds after its start: completions.\<close>

fun es_completado :: "accion \<Rightarrow> bool" where
  "es_completado (Completado r f t0 t1) = True"
| "es_completado (Secuencial cr ci) = False"
| "es_completado (Paralelo cr ci) = False"

section \<open>The metrics\<close>

text \<open>
  Lines 116 to 133 of \<open>generar_fractal_y_graficar\<close>, as a function of the two elapsed times
  the runs returned, the instance after the runs and the value of \<open>os.cpu_count()\<close> (an
  integer, or \<open>None\<close>). Python's \<open>/\<close> raises \<open>ZeroDivisionError\<close> on a zero divisor, and
  \<open>TypeError\<close> when the divisor is \<open>None\<close>.
\<close>

record metricas =
  latencia_por_tarea_secuencial :: real
  latencia_por_tarea_paralelo :: real
  throughput_secuencial :: real
  throughput_paralelo :: real
  speedup :: real
  eficiencia :: real
  granularidad :: real

definition dividir :: "real \<Rightarrow> real \<Rightarrow> error + real" where
  "dividir a b = (if b = 0 then Inl ZeroDivisionError else Inr (a / b))"

definition ligar :: "error + 'a \<Rightarrow> ('a \<Rightarrow> error + 'b) \<Rightarrow> error + 'b" where
  "ligar r k = (case r of Inl e \<Rightarrow> Inl e | Inr v \<Rightarrow> k v)"

definition generar_fractal_y_graficar ::
    "fractal \<Rightarrow> real \<Rightarrow> real \<Rightarrow> nat option \<Rightarrow> error + metricas" where
  "generar_fractal_y_graficar fractal tiempo_transcurrido_secuencial
       tiempo_transcurrido_paralelo num_procesadores =
     (let num_tareas_secuencial = real (alto fractal);
          num_tareas_paralelo = real (length (salida fractal))
      in
      ligar (dividir tiempo_transcurrido_secuencial num_tareas_secuencial) (\<lambda>lat_sec.
      ligar (dividir tiempo_transcurrido_paralelo num_tareas_paralelo) (\<lambda>lat_par.
      ligar (dividir num_tareas_secuencial tiempo_transcurrido_secuencial) (\<lambda>thr_sec.
      ligar (dividir num_tareas_paralelo tiempo_transcurrido_paralelo) (\<lambda>thr_par.
      ligar (dividir tiempo_transcurrido_secuencial tiempo_transcurrido_paralelo) (\<lambda>sp.
      ligar (case num_procesadores of None \<Rightarrow> Inl TypeError
             | Some p \<Rightarrow> dividir sp (real p)) (\<lambda>ef.
      ligar (dividir tiempo_transcurrido_paralelo (tiempo_comunicacion_total fractal)) (\<lambda>gr.
      Inr \<lparr>latencia_por_tarea_secuencial = lat_sec,
           latencia_por_tarea_paralelo = lat_par,
           throughput_secuencial = thr_sec,
           throughput_paralelo = thr_par,
           speedup = sp,
           eficiencia = ef,
           granularidad = gr\<rparr>))))))))"

section \<open>The grid by direct evaluation\<close>

text \<open>
  The grid the specification compares both runs with: the kernel evaluated directly at the
  coordinate of every cell, row by row.
\<close>

definition fila :: "fractal \<Rightarrow> complex \<Rightarrow> nat \<Rightarrow> int list" where
  "fila self c y = map (\<lambda>x. fractal_julia_exacta self c (punto self x y)) [0..<ancho self]"

definition imagen :: "fractal \<Rightarrow> complex \<Rightarrow> matriz" where
  "imagen self c = map (fila self c) [0..<alto self]"

section \<open>Example instances and schedules\<close>

text \<open>
  An example of an allocation: a 64-bit NumPy with 8-byte integers on a machine that
  gives an array up to 1 GiB. NumPy refuses with \<open>ValueError\<close> a shape whose dimensions or
  whose size in bytes do not fit a signed 64-bit integer; a larger array than the machine
  gives is a \<open>MemoryError\<close>.
\<close>

definition asignar_64 :: "nat \<Rightarrow> nat \<Rightarrow> error option" where
  "asignar_64 nf nc =
     (if 2 ^ 63 \<le> nf \<or> 2 ^ 63 \<le> nc \<or> 2 ^ 63 \<le> 8 * nf * nc then Some ValueError
      else if 2 ^ 30 < 8 * nf * nc then Some MemoryError
      else None)"

text \<open>
  The instance that \<open>FractalJulia(4, 4, 10)\<close> builds when its array is allocated (lemma
  \<open>init_ejemplo\<close>).
\<close>

definition ejemplo :: fractal where
  "ejemplo = \<lparr>ancho = 4, alto = 4, max_iteraciones = 10, salida = zeros 4 4,
     tiempo_comunicacion_total = 0, c_real = None, c_imag = None\<rparr>"

text \<open>
  A schedule of a whole run: the four callbacks are registered while the tasks run, the
  orchestrator waits, and the fragments complete one after the other.
\<close>

definition plan_completo :: "evento list" where
  "plan_completo =
     [Registra 0, Registra 0, Registra 0, Registra 0, Espera,
      Termina 0, Fusiona 0 1, Notifica 0, Despierta,
      Termina 1, Fusiona 1 1, Notifica 1,
      Termina 2, Fusiona 2 1, Notifica 2,
      Termina 3, Fusiona 3 1, Notifica 3]"

text \<open>
  A schedule in which the orchestrator is woken by the first completion: the callbacks are
  registered, the orchestrator waits, fragment 0 completes and notifies, and \<open>wait()\<close>
  returns while the other three tasks are still running.
\<close>

definition plan_prematuro :: "evento list" where
  "plan_prematuro =
     [Registra 0, Registra 0, Registra 0, Registra 0, Espera,
      Termina 0, Fusiona 0 1, Notifica 0, Despierta]"

text \<open>
  A schedule in which all four tasks finish before the orchestrator registers the
  callbacks: each callback then runs on the orchestrator's thread during registration.
\<close>

definition plan_bloqueo :: "evento list" where
  "plan_bloqueo =
     [Termina 0, Termina 1, Termina 2, Termina 3,
      Registra 1, Registra 1, Registra 1, Registra 1, Espera]"

text \<open>
  The actions of one whole parallel run on \<open>ejemplo\<close>'s geometry with \<open>c = 0\<close>: the
  start of the run, then the completion of each planned fragment, submitted at clock
  reading \<open>t\<close> and merged at \<open>t + 1\<close>.
\<close>

definition corrida_ejemplo :: "real \<Rightarrow> accion list" where
  "corrida_ejemplo t =
     Paralelo 0 0 #
     map (\<lambda>f. Completado (generar_fractal (ejemplo\<lparr>c_real := Some 0, c_imag := Some 0\<rparr>) f)
                           f t (t + 1))
         (fragmentos (alto ejemplo))"

text \<open>
  The start of a parallel run on \<open>ejemplo\<close> and the completion of its fragment 0, submitted
  at clock reading 5 and merged at clock reading 3: the wall clock was set back in between.
\<close>

definition vida_reloj_atrasado :: "accion list" where
  "vida_reloj_atrasado =
     [Paralelo 0 0,
      Completado (generar_fractal (ejemplo\<lparr>c_real := Some 0, c_imag := Some 0\<rparr>) (0, 1))
                 (0, 1) 5 3]"

section \<open>The invariant of a run\<close>

text \<open>
  What holds in every state of a run started by \<open>lanzar self cr ci\<close>, with
  \<open>c = Complex cr ci\<close>: the futures carry the planned fragments and the blocks computed for
  them, the output keeps its number of rows, and the rows of every merged fragment hold
  the values of the direct evaluation.
\<close>

definition resultado_de :: "fractal \<Rightarrow> complex \<Rightarrow> nat \<times> nat \<Rightarrow> error + matriz" where
  "resultado_de self c f = Inr (map (fila self c) [fst f..<snd f])"

definition inv_corrida :: "fractal \<Rightarrow> complex \<Rightarrow> sistema \<Rightarrow> bool" where
  "inv_corrida self c s =
     (map fragmento (futuros s) = fragmentos (alto self)
      \<and> map resultado (futuros s) = map (resultado_de self c) (fragmentos (alto self))
      \<and> ancho (objeto s) = ancho self
      \<and> length (salida (objeto s)) = alto self
      \<and> (\<forall>i<4. fusionado (futuros s ! i) \<longrightarrow>
             (\<forall>y\<in>filas (fragmentos (alto self) ! i). salida (objeto s) ! y = fila self c y)))"

section \<open>The kernel: termination and the count\<close>

lemma bucle_julia_exacta: "bucle_julia exacta m c z n = Inr (bucle_exacto m c z n)"
proof (induction m c z n rule: bucle_exacto.induct)
  case (1 m c z n)
  show ?case
  proof (cases "cmod z \<le> 2 \<and> n < m")
    case True
    with "1.IH" show ?thesis
      by (subst bucle_julia.simps, subst bucle_exacto.simps) (simp add: exacta_def)
  next
    case False
    then show ?thesis
      by (subst bucle_julia.simps, subst bucle_exacto.simps) (auto simp: exacta_def)
  qed
qed

lemma fractal_julia_exacta_eq:
  "fractal_julia exacta self c z = Inr (fractal_julia_exacta self c z)"
  by (simp add: fractal_julia_def fractal_julia_exacta_def bucle_julia_exacta)

lemma dentro_en_Suc:
  "cuadrado_mas ar z c = Inr z' \<Longrightarrow> dentro_en ar c z (Suc j) = dentro_en ar c z' j"
  by (simp add: dentro_en_def)

lemma fuera_en_Suc:
  "cuadrado_mas ar z c = Inr z' \<Longrightarrow> fuera_en ar c z (Suc j) = fuera_en ar c z' j"
  by (simp add: fuera_en_def)

lemma falla_en_Suc:
  "cuadrado_mas ar z c = Inr z' \<Longrightarrow> falla_en ar c z (Suc j) e = falla_en ar c z' j e"
  by (simp add: falla_en_def)

text \<open>What the loop returns, from any value of its counter.\<close>

lemma bucle_julia_retorna:
  "bucle_julia ar m c z n = Inr r \<Longrightarrow>
   \<exists>k. r = n + int k
     \<and> (\<forall>j<k. dentro_en ar c z j \<and> n + int j < m)
     \<and> (fuera_en ar c z k \<or> dentro_en ar c z k \<and> m \<le> n + int k)"
proof (induction ar m c z n rule: bucle_julia.induct)
  case (1 ar m c z n)
  from "1.prems" obtain b where b: "abs_menor_igual_2 ar z = Inr b"
    by (subst (asm) bucle_julia.simps) (auto split: sum.splits)
  show ?case
  proof (cases "b \<and> n < m")
    case True
    with "1.prems" b obtain z' where z': "cuadrado_mas ar z c = Inr z'"
      and rec: "bucle_julia ar m c z' (n + 1) = Inr r"
      by (subst (asm) bucle_julia.simps) (auto split: sum.splits)
    from "1.IH"[OF b _ z' rec] True obtain k where
      k: "r = n + 1 + int k"
         "\<forall>j<k. dentro_en ar c z' j \<and> n + 1 + int j < m"
         "fuera_en ar c z' k \<or> dentro_en ar c z' k \<and> m \<le> n + 1 + int k"
      by auto
    have d0: "dentro_en ar c z 0" using b True by (simp add: dentro_en_def)
    have pre: "\<forall>j<Suc k. dentro_en ar c z j \<and> n + int j < m"
    proof (intro allI impI)
      fix j assume "j < Suc k"
      then show "dentro_en ar c z j \<and> n + int j < m"
        using d0 True k(2) by (cases j) (auto simp: dentro_en_Suc[OF z'])
    qed
    have fin: "fuera_en ar c z (Suc k) \<or> dentro_en ar c z (Suc k) \<and> m \<le> n + int (Suc k)"
      using k(3) by (auto simp: dentro_en_Suc[OF z'] fuera_en_Suc[OF z'])
    from k(1) pre fin show ?thesis
      by (intro exI[of _ "Suc k"]) simp
  next
    case False
    with "1.prems" b have r: "r = n"
      by (subst (asm) bucle_julia.simps) (auto split: sum.splits)
    from False b have "fuera_en ar c z 0 \<or> dentro_en ar c z 0 \<and> m \<le> n"
      by (cases b) (auto simp: fuera_en_def dentro_en_def)
    with r show ?thesis by (intro exI[of _ 0]) simp
  qed
qed

lemma bucle_julia_lanza:
  "bucle_julia ar m c z n = Inl e \<Longrightarrow>
   \<exists>k. (\<forall>j<k. dentro_en ar c z j \<and> n + int j < m) \<and> falla_en ar c z k e"
proof (induction ar m c z n rule: bucle_julia.induct)
  case (1 ar m c z n)
  show ?case
  proof (cases "abs_menor_igual_2 ar z")
    case (Inl e')
    with "1.prems" have "e' = e" by (subst (asm) bucle_julia.simps) simp
    with Inl have "falla_en ar c z 0 e" by (simp add: falla_en_def)
    then show ?thesis by (intro exI[of _ 0]) simp
  next
    case (Inr b)
    with "1.prems" have cond: "b \<and> n < m"
      by (subst (asm) bucle_julia.simps) (auto split: if_splits)
    have d0: "dentro_en ar c z 0" using Inr cond by (simp add: dentro_en_def)
    show ?thesis
    proof (cases "cuadrado_mas ar z c")
      case (Inl e')
      with "1.prems" Inr cond have "e' = e" by (subst (asm) bucle_julia.simps) simp
      with Inl have "falla_en ar c z (Suc 0) e" by (simp add: falla_en_def)
      with d0 cond show ?thesis by (intro exI[of _ "Suc 0"]) simp
    next
      case z': (Inr z')
      with "1.prems" Inr cond have rec: "bucle_julia ar m c z' (n + 1) = Inl e"
        by (subst (asm) bucle_julia.simps) simp
      from "1.IH"[OF Inr cond z' rec] obtain k where
        k: "\<forall>j<k. dentro_en ar c z' j \<and> n + 1 + int j < m" "falla_en ar c z' k e"
        by auto
      have pre: "\<forall>j<Suc k. dentro_en ar c z j \<and> n + int j < m"
      proof (intro allI impI)
        fix j assume "j < Suc k"
        then show "dentro_en ar c z j \<and> n + int j < m"
          using d0 cond k(1) by (cases j) (auto simp: dentro_en_Suc[OF z'])
      qed
      from pre k(2) show ?thesis
        by (intro exI[of _ "Suc k"]) (simp add: falla_en_Suc[OF z'])
    qed
  qed
qed

text \<open>An exception that leaves the kernel was raised by one of the two operations.\<close>

lemma falla_en_operacion:
  "falla_en ar c z k e \<Longrightarrow>
   (\<exists>w. abs_menor_igual_2 ar w = Inl e) \<or> (\<exists>w. cuadrado_mas ar w c = Inl e)"
proof (induction k arbitrary: z)
  case 0
  then show ?case by (auto simp: falla_en_def)
next
  case (Suc k)
  show ?case
  proof (cases "cuadrado_mas ar z c")
    case (Inl e')
    with Suc.prems have "e' = e" by (simp add: falla_en_def)
    with Inl show ?thesis by blast
  next
    case (Inr z')
    with Suc.prems have "falla_en ar c z' k e" by (simp add: falla_en_Suc)
    from Suc.IH[OF this] show ?thesis .
  qed
qed

lemma fractal_julia_sin_excepcion:
  assumes "\<forall>w e. abs_menor_igual_2 ar w \<noteq> Inl e" and "\<forall>w e. cuadrado_mas ar w c \<noteq> Inl e"
  shows "\<exists>r. fractal_julia ar self c z = Inr r"
proof (cases "fractal_julia ar self c z")
  case (Inl e)
  from bucle_julia_lanza[of ar "max_iteraciones self" c z 0 e] Inl
  obtain k where "falla_en ar c z k e" by (auto simp: fractal_julia_def)
  from falla_en_operacion[OF this] assms show ?thesis by blast
next
  case (Inr r)
  then show ?thesis by blast
qed

lemma fractal_julia_lanza_abs:
  "abs_menor_igual_2 ar z = Inl e \<Longrightarrow> fractal_julia ar self c z = Inl e"
  by (simp add: fractal_julia_def bucle_julia.simps)

lemma bucle_exacto_fuera: "2 < cmod z \<Longrightarrow> bucle_exacto m c z n = n"
  by (subst bucle_exacto.simps) simp

text \<open>With \<open>c = 0\<close> a starting value of modulus at most 1 never escapes: the cap is returned.\<close>

lemma bucle_exacto_dentro:
  "cmod z \<le> 1 \<Longrightarrow> n \<le> m \<Longrightarrow> bucle_exacto m 0 z n = m"
proof (induction m "0::complex" z n rule: bucle_exacto.induct)
  case (1 m z n)
  show ?case
  proof (cases "n < m")
    case True
    from "1.prems" have "cmod (z ^ 2 + 0) \<le> 1"
      by (simp add: norm_power power_le_one)
    with "1.hyps" True "1.prems" show ?thesis
      by (subst bucle_exacto.simps) simp
  next
    case False
    with "1.prems" show ?thesis by (subst bucle_exacto.simps) simp
  qed
qed

text \<open>
  Claim C5 fails as stated: with the cap \<open>-3\<close> the kernel returns the count 0 (the test
  \<open>n < self.max_iteraciones\<close> fails at once), and 0 does not lie in \<open>[0, -3]\<close>.
\<close>

theorem fractal_julia_tope_negativo:
  "fractal_julia exacta (ejemplo\<lparr>max_iteraciones := - 3\<rparr>) 0 0 = Inr 0
   \<and> max_iteraciones (ejemplo\<lparr>max_iteraciones := - 3\<rparr>) = - 3"
  by (simp add: fractal_julia_def bucle_julia.simps exacta_def)

text \<open>
  Claim C5, amended. For every constant \<open>c\<close> and starting value \<open>z\<close>, in whatever
  floating-point arithmetic, the kernel terminates (\<open>bucle_julia\<close> is a total function).
  When it returns, it returns the number \<open>k\<close> of rounds of \<open>z = z**2 + c\<close> performed before
  the test \<open>abs(z) <= 2\<close> fails or the cap is reached: the test held on the first \<open>k\<close> values
  of \<open>z\<close>, each below the cap, and on the value after \<open>k\<close> rounds it fails or the cap is
  reached. The count is not negative; it is at most \<open>max_iteraciones\<close> when that is not
  negative, and it is 0 when \<open>max_iteraciones\<close> is negative. The kernel does not return only
  when one of its operations raises (as \<open>abs\<close> does on a modulus beyond the floats): that
  exception then leaves the kernel, after \<open>k\<close> rounds on values inside the disc.
\<close>

theorem fractal_julia_cuenta:
  "case fractal_julia ar self c z of
     Inr r \<Rightarrow>
       (\<exists>k. r = int k
          \<and> (\<forall>j<k. dentro_en ar c z j \<and> int j < max_iteraciones self)
          \<and> (fuera_en ar c z k \<or> dentro_en ar c z k \<and> max_iteraciones self \<le> int k))
       \<and> 0 \<le> r
       \<and> (0 \<le> max_iteraciones self \<longrightarrow> r \<le> max_iteraciones self)
       \<and> (max_iteraciones self < 0 \<longrightarrow> r = 0)
   | Inl e \<Rightarrow>
       (\<exists>k. (\<forall>j<k. dentro_en ar c z j \<and> int j < max_iteraciones self)
          \<and> falla_en ar c z k e)
       \<and> ((\<exists>w. abs_menor_igual_2 ar w = Inl e) \<or> (\<exists>w. cuadrado_mas ar w c = Inl e))"
proof (cases "fractal_julia ar self c z")
  case (Inl e)
  from bucle_julia_lanza[of ar "max_iteraciones self" c z 0 e] Inl
  obtain k where k: "\<forall>j<k. dentro_en ar c z j \<and> int j < max_iteraciones self"
    "falla_en ar c z k e"
    by (auto simp: fractal_julia_def)
  from falla_en_operacion[OF k(2)] k Inl show ?thesis by auto
next
  case (Inr r)
  from bucle_julia_retorna[of ar "max_iteraciones self" c z 0 r] Inr obtain k where
    k: "r = int k" "\<forall>j<k. dentro_en ar c z j \<and> int j < max_iteraciones self"
       "fuera_en ar c z k \<or> dentro_en ar c z k \<and> max_iteraciones self \<le> int k"
    by (auto simp: fractal_julia_def)
  have tope: "int k \<le> max_iteraciones self" if "0 \<le> max_iteraciones self"
  proof (cases k)
    case 0
    with that show ?thesis by simp
  next
    case (Suc i)
    with k(2) have "int i < max_iteraciones self" by simp
    with Suc show ?thesis by simp
  qed
  have cero: "k = 0" if "max_iteraciones self < 0"
  proof (rule ccontr)
    assume "k \<noteq> 0"
    then have "0 < k" by simp
    with k(2) have "int 0 < max_iteraciones self" by blast
    with that show False by simp
  qed
  from k tope cero Inr show ?thesis by auto
qed

theorem fractal_julia_cuenta_witness:
  "0 \<le> max_iteraciones ejemplo
   \<and> fractal_julia exacta ejemplo 0 0 = Inr 10
   \<and> (\<exists>k. (10::int) = int k
          \<and> (fuera_en exacta 0 0 k \<or> dentro_en exacta 0 0 k \<and> max_iteraciones ejemplo \<le> int k))"
proof -
  have h: "0 \<le> max_iteraciones ejemplo" by (simp add: ejemplo_def)
  have v: "fractal_julia exacta ejemplo 0 0 = Inr 10"
    using bucle_exacto_dentro[of 0 0 10]
    by (simp add: fractal_julia_exacta_eq fractal_julia_exacta_def ejemplo_def)
  from fractal_julia_cuenta[where ar = exacta and self = ejemplo and c = 0 and z = 0] have
    "\<exists>k. (10::int) = int k
          \<and> (fuera_en exacta 0 0 k \<or> dentro_en exacta 0 0 k \<and> max_iteraciones ejemplo \<le> int k)"
    unfolding v by auto
  with h v show ?thesis by (intro conjI)
qed

section \<open>The fragment plan is a partition\<close>

lemma fragmentos_eq:
  "fragmentos h = [(0, h div 4), (h div 4, 2 * (h div 4)), (2 * (h div 4), 3 * (h div 4)), (3 * (h div 4), h)]"
  by (simp add: fragmentos_def Let_def upt_rec)

lemma menor_4: "(i::nat) < 4 \<Longrightarrow> i = 0 \<or> i = 1 \<or> i = 2 \<or> i = 3"
  by arith

lemma menor_3: "(i::nat) < 3 \<Longrightarrow> i = 0 \<or> i = 1 \<or> i = 2"
  by arith

lemma fragmentos_nth:
  "fragmentos h ! 0 = (0, h div 4)"
  "fragmentos h ! 1 = (h div 4, 2 * (h div 4))"
  "fragmentos h ! 2 = (2 * (h div 4), 3 * (h div 4))"
  "fragmentos h ! 3 = (3 * (h div 4), h)"
  "fragmentos h ! Suc 0 = (h div 4, 2 * (h div 4))"
  "fragmentos h ! Suc (Suc 0) = (2 * (h div 4), 3 * (h div 4))"
  by (simp_all add: fragmentos_eq numeral_3_eq_3 numeral_2_eq_2)

lemma length_fragmentos: "length (fragmentos h) = 4"
  by (simp add: fragmentos_eq)

lemma fragmentos_disjuntos:
  "i < 4 \<Longrightarrow> j < 4 \<Longrightarrow> i \<noteq> j \<Longrightarrow>
   filas (fragmentos h ! i) \<inter> filas (fragmentos h ! j) = {}"
  by (drule menor_4, drule menor_4) (auto simp: fragmentos_nth filas_def)

lemma fragmentos_union: "(\<Union>f\<in>set (fragmentos h). filas f) = {0..<h}"
proof -
  have "3 * (h div 4) \<le> h" by arith
  then show ?thesis
    by (auto simp: fragmentos_eq filas_def)
qed

text \<open>
  Claim C3. For a height of at least 4 the plan has four fragments, each a non-empty
  half-open range of rows; they are contiguous from row 0 to row \<open>h\<close>, pairwise disjoint,
  and their union is \<open>[0, h)\<close>; the first three span exactly \<open>h div 4\<close> rows and the last
  one runs from \<open>3 * (h div 4)\<close> to \<open>h\<close>.
\<close>

theorem fragmentos_particion:
  assumes "4 \<le> h"
  shows "length (fragmentos h) = 4
       \<and> (\<forall>i<4. fst (fragmentos h ! i) < snd (fragmentos h ! i))
       \<and> fst (fragmentos h ! 0) = 0
       \<and> (\<forall>i<3. snd (fragmentos h ! i) = fst (fragmentos h ! Suc i))
       \<and> snd (fragmentos h ! 3) = h
       \<and> (\<forall>i<4. \<forall>j<4. i \<noteq> j \<longrightarrow>
              filas (fragmentos h ! i) \<inter> filas (fragmentos h ! j) = {})
       \<and> (\<Union>f\<in>set (fragmentos h). filas f) = {0..<h}
       \<and> (\<forall>i<3. snd (fragmentos h ! i) - fst (fragmentos h ! i) = h div 4)
       \<and> fragmentos h ! 3 = (3 * (h div 4), h)"
proof -
  from assms have pos: "0 < h div 4" and tres: "3 * (h div 4) < h" by arith+
  have no_vacio: "\<forall>i<4. fst (fragmentos h ! i) < snd (fragmentos h ! i)"
    using pos tres by (auto dest!: menor_4 simp: fragmentos_nth)
  have contiguos: "\<forall>i<3. snd (fragmentos h ! i) = fst (fragmentos h ! Suc i)"
    by (auto dest!: menor_3 simp: fragmentos_nth)
  have base: "\<forall>i<3. snd (fragmentos h ! i) - fst (fragmentos h ! i) = h div 4"
    by (auto dest!: menor_3 simp: fragmentos_nth)
  show ?thesis
    using no_vacio contiguos base fragmentos_disjuntos[of _ _ h] fragmentos_union[of h]
    by (simp add: length_fragmentos fragmentos_nth)
qed

theorem fragmentos_particion_witness:
  "(4::nat) \<le> 10 \<and> fragmentos 10 = [(0, 2), (2, 4), (4, 6), (6, 10)]
   \<and> (\<Union>f\<in>set (fragmentos 10). filas f) = {0..<10}
   \<and> filas (fragmentos 10 ! 1) \<inter> filas (fragmentos 10 ! 3) = {}"
proof -
  have h: "(4::nat) \<le> 10" by simp
  have v: "fragmentos 10 = [(0, 2), (2, 4), (4, 6), (6, 10)]"
    by (simp add: fragmentos_eq)
  from fragmentos_particion[OF h] h v show ?thesis by (simp add: filas_def)
qed

text \<open>
  Claim C10. For every height the four ranges are pairwise disjoint and their union is
  \<open>[0, h)\<close>. Below 4 the band size is 0, the first three fragments are empty and the last
  one, \<open>(0, h)\<close>, covers every row.
\<close>

theorem fragmentos_particion_siempre:
  "(\<forall>i<4. \<forall>j<4. i \<noteq> j \<longrightarrow>
        filas (fragmentos h ! i) \<inter> filas (fragmentos h ! j) = {})
   \<and> (\<Union>f\<in>set (fragmentos h). filas f) = {0..<h}
   \<and> (h < 4 \<longrightarrow>
        h div 4 = 0
        \<and> fragmentos h = [(0, 0), (0, 0), (0, 0), (0, h)]
        \<and> (\<forall>i<3. filas (fragmentos h ! i) = {})
        \<and> filas (fragmentos h ! 3) = {0..<h})"
proof -
  have chico: "h < 4 \<longrightarrow> (\<forall>i<3. filas (fragmentos h ! i) = {})
                 \<and> filas (fragmentos h ! 3) = {0..<h}"
    by (auto dest!: menor_3 simp: fragmentos_nth filas_def)
  have lista: "h < 4 \<longrightarrow> fragmentos h = [(0, 0), (0, 0), (0, 0), (0, h)]"
    by (simp add: fragmentos_eq)
  show ?thesis
    using chico lista fragmentos_disjuntos[of _ _ h] fragmentos_union[of h]
    by simp
qed

theorem fragmentos_particion_siempre_witness:
  "(2::nat) < 4 \<and> fragmentos 2 = [(0, 0), (0, 0), (0, 0), (0, 2)]
   \<and> filas (fragmentos 2 ! 0) \<inter> filas (fragmentos 2 ! 3) = {}
   \<and> (\<Union>f\<in>set (fragmentos 2). filas f) = {0..<2}
   \<and> filas (fragmentos 2 ! 3) = {0..<2}"
  using fragmentos_particion_siempre[of 2] by (simp add: filas_def)

section \<open>The constructor and the metrics\<close>

lemma init_ejemplo: "asignar 4 4 = None \<Longrightarrow> init asignar 4 4 10 = Inr ejemplo"
  by (simp add: init_def ejemplo_def)

lemma init_ejemplo_64: "init asignar_64 4 4 10 = Inr ejemplo"
  by (rule init_ejemplo) (simp add: asignar_64_def)

text \<open>
  The constructor passes on what the allocation raises: for a dimension of \<open>2**63\<close>, and
  for \<open>2**31\<close> by \<open>2**31\<close> cells, the \<open>ValueError\<close> of NumPy.
\<close>

lemma init_dimension_excesiva:
  "init asignar_64 4 (2 ^ 63) 10 = Inl ValueError"
  "init asignar_64 (2 ^ 31) (2 ^ 31) 10 = Inl ValueError"
  by (simp_all add: init_def asignar_64_def)

text \<open>
  Claim C7 fails as stated: \<open>FractalJulia(4, 3, 10)\<close>, with a height below the number of
  fragments, is constructed without an error.
\<close>

theorem init_acepta_alto_3:
  "init asignar_64 4 3 10 =
     Inr \<lparr>ancho = 4, alto = 3, max_iteraciones = 10, salida = zeros 3 4,
          tiempo_comunicacion_total = 0, c_real = None, c_imag = None\<rparr>"
  by (simp add: init_def asignar_64_def)

lemma fragmentos_lanzar:
  "map fragmento (futuros (lanzar self cr ci arranque)) = fragmentos (alto self)"
  by (simp add: lanzar_def Let_def fragmentos_eq enumerate_eq_zip upt_rec)

text \<open>
  Claim C7, amended. The constructor does not compare the height with the number of
  fragments. It fails exactly when the allocation of the output array fails: with
  \<open>ValueError\<close> for a negative dimension, and with the exception of \<open>np.zeros\<close> for a
  non-negative shape that cannot be allocated. Whenever the array is allocated, also with
  a height below 4, it returns the instance with the dimensions stored, a zero grid and
  the accumulator at 0. A later parallel run on a height below 4 proceeds with the
  fragments \<open>(0,0), (0,0), (0,0), (0,alto)\<close>.
\<close>

theorem init_sin_validacion:
  "(an < 0 \<or> al < 0 \<longrightarrow> init asignar an al mi = Inl ValueError)
   \<and> (0 \<le> an \<and> 0 \<le> al \<longrightarrow>
        (case asignar (nat al) (nat an) of
           Some e \<Rightarrow> init asignar an al mi = Inl e
         | None \<Rightarrow>
             (\<exists>self. init asignar an al mi = Inr self
                \<and> ancho self = nat an \<and> alto self = nat al
                \<and> max_iteraciones self = mi \<and> salida self = zeros (nat al) (nat an)
                \<and> tiempo_comunicacion_total self = 0
                \<and> (al < 4 \<longrightarrow>
                     map fragmento (futuros (lanzar self cr ci arranque))
                       = [(0, 0), (0, 0), (0, 0), (0, nat al)]))))"
proof -
  have "0 \<le> al \<Longrightarrow> al < 4 \<Longrightarrow> fragmentos (nat al) = [(0, 0), (0, 0), (0, 0), (0, nat al)]"
    by (simp add: fragmentos_eq)
  then show ?thesis
    by (auto simp: init_def fragmentos_lanzar split: option.splits)
qed

theorem init_sin_validacion_witness:
  "(0::int) \<le> 4 \<and> (0::int) \<le> 3 \<and> (3::int) < 4 \<and> asignar_64 3 4 = None
   \<and> (\<exists>self. init asignar_64 4 3 10 = Inr self \<and> alto self = 3
        \<and> map fragmento (futuros (lanzar self 0 0 (\<lambda>i. 0)))
             = [(0, 0), (0, 0), (0, 0), (0, 3)])"
proof -
  have a: "asignar_64 3 4 = None" by (simp add: asignar_64_def)
  from init_sin_validacion[of 4 3 asignar_64 10 0 0 "\<lambda>i. 0"] a
  have "\<exists>self. init asignar_64 4 3 10 = Inr self \<and> alto self = 3
        \<and> map fragmento (futuros (lanzar self 0 0 (\<lambda>i. 0)))
             = [(0, 0), (0, 0), (0, 0), (0, 3)]"
    by auto
  with a show ?thesis by simp
qed

lemma ligar_simps:
  "ligar (Inl e) k = Inl e" "ligar (Inr v) k = k v"
  by (simp_all add: ligar_def)

text \<open>
  Claim C8 fails as stated: with a sequential elapsed time of 0, and likewise with a
  communication time of 0, the division is performed and raises \<open>ZeroDivisionError\<close>.
\<close>

theorem metricas_tiempo_cero:
  "generar_fractal_y_graficar (ejemplo\<lparr>tiempo_comunicacion_total := 1 / 2\<rparr>) 0 1 (Some 4)
     = Inl ZeroDivisionError
   \<and> generar_fractal_y_graficar ejemplo 1 1 (Some 4) = Inl ZeroDivisionError"
  by (simp add: generar_fractal_y_graficar_def dividir_def ligar_simps ejemplo_def zeros_def Let_def)

text \<open>
  Claim C8, amended. The metrics computation has no guard: each of the seven quotients is
  computed unconditionally. When every divisor (the two elapsed times, the two task
  counts, the processor count, the communication time) is nonzero the result is the seven
  quotients; when one of them is zero the \<open>ZeroDivisionError\<close> of the division is raised.
  (When \<open>os.cpu_count()\<close> is \<open>None\<close> the efficiency raises \<open>TypeError\<close>, unless an earlier
  division has already failed.)
\<close>

theorem metricas_sin_guarda:
  "generar_fractal_y_graficar f ts tp (Some p) =
     (if alto f = 0 \<or> length (salida f) = 0 \<or> ts = 0 \<or> tp = 0 \<or> p = 0
         \<or> tiempo_comunicacion_total f = 0
      then Inl ZeroDivisionError
      else Inr \<lparr>latencia_por_tarea_secuencial = ts / real (alto f),
                latencia_por_tarea_paralelo = tp / real (length (salida f)),
                throughput_secuencial = real (alto f) / ts,
                throughput_paralelo = real (length (salida f)) / tp,
                speedup = ts / tp,
                eficiencia = ts / tp / real p,
                granularidad = tp / tiempo_comunicacion_total f\<rparr>)
   \<and> generar_fractal_y_graficar f ts tp None =
     (if alto f = 0 \<or> length (salida f) = 0 \<or> ts = 0 \<or> tp = 0
      then Inl ZeroDivisionError else Inl TypeError)"
  by (simp add: generar_fractal_y_graficar_def dividir_def ligar_simps Let_def)

section \<open>The loops compute the direct evaluation\<close>

lemma bucle_fila:
  "n \<le> length r \<Longrightarrow> foldl (\<lambda>r x. r[x := f x]) r [0..<n] = map f [0..<n] @ drop n r"
proof (induction n)
  case 0
  then show ?case by simp
next
  case (Suc n)
  then have n: "n < length r" by simp
  have "foldl (\<lambda>r x. r[x := f x]) r [0..<Suc n] = (map f [0..<n] @ drop n r)[n := f n]"
    using Suc by simp
  also have "\<dots> = map f [0..<n] @ (drop n r)[0 := f n]"
    by (simp add: list_update_append)
  also have "(drop n r)[0 := f n] = f n # drop (Suc n) r"
    using n by (simp add: Cons_nth_drop_Suc[symmetric])
  finally show ?case by simp
qed

lemma bucle_poner:
  "i < length a \<Longrightarrow>
   foldl (\<lambda>a x. poner a i x (f x)) a xs = a[i := foldl (\<lambda>r x. r[x := f x]) (a ! i) xs]"
proof (induction xs arbitrary: a)
  case Nil
  then show ?case by simp
next
  case (Cons x xs)
  from Cons.prems have len: "i < length (poner a i x (f x))" by (simp add: poner_def)
  show ?case
    using Cons.IH[OF len] Cons.prems by (simp add: poner_def)
qed

lemma bucle_interior:
  assumes "i < length a" and "length (a ! i) = w"
  shows "foldl (\<lambda>a x. poner a i x (f x)) a [0..<w] = a[i := map f [0..<w]]"
  using assms by (simp add: bucle_poner bucle_fila)

lemma bucle_exterior:
  assumes "forma a nf w" and "k \<le> nf"
  shows "foldl (\<lambda>a y. foldl (\<lambda>a x. poner a (y - ini) x (f x y)) a [0..<w]) a [ini..<ini + k]
         = map (\<lambda>y. map (\<lambda>x. f x y) [0..<w]) [ini..<ini + k] @ drop k a"
  using assms(2)
proof (induction k)
  case 0
  then show ?case by simp
next
  case (Suc k)
  let ?pre = "map (\<lambda>y. map (\<lambda>x. f x y) [0..<w]) [ini..<ini + k]"
  from Suc.prems assms(1) have k: "k < length a" and wk: "length (a ! k) = w"
    by (auto simp: forma_def list_all_length)
  have lp: "length ?pre = k" by simp
  have idx: "k < length (?pre @ drop k a)" using k by simp
  have nth: "(?pre @ drop k a) ! k = a ! k"
    using k by (simp add: nth_append)
  have "foldl (\<lambda>a y. foldl (\<lambda>a x. poner a (y - ini) x (f x y)) a [0..<w]) a [ini..<ini + Suc k]
        = foldl (\<lambda>a x. poner a k x (f x (ini + k))) (?pre @ drop k a) [0..<w]"
    using Suc by simp
  also have "\<dots> = (?pre @ drop k a)[k := map (\<lambda>x. f x (ini + k)) [0..<w]]"
    using idx nth wk by (simp only: bucle_interior)
  also have "\<dots> = ?pre @ (drop k a)[0 := map (\<lambda>x. f x (ini + k)) [0..<w]]"
    by (simp add: list_update_append)
  also have "(drop k a)[0 := map (\<lambda>x. f x (ini + k)) [0..<w]]
             = map (\<lambda>x. f x (ini + k)) [0..<w] # drop (Suc k) a"
    using k by (simp add: Cons_nth_drop_Suc[symmetric])
  finally show ?case by simp
qed

lemma forma_zeros: "forma (zeros nf nc) nf nc"
  by (simp add: forma_def zeros_def list_all_length)

lemma bloque_eq: "bloque self c ini fin = map (fila self c) [ini..<fin]"
proof (cases "ini \<le> fin")
  case True
  then obtain k where fin: "fin = ini + k" by (auto simp: le_iff_add)
  show ?thesis
    using bucle_exterior[OF forma_zeros, where k = k and nf = k and w = "ancho self"
        and ini = ini and f = "\<lambda>x y. fractal_julia_exacta self c (punto self x y)"]
    by (simp add: bloque_def fin fila_def zeros_def)
next
  case False
  then show ?thesis by (simp add: bloque_def zeros_def)
qed

lemma forma_bloque: "forma (bloque self c ini fin) (fin - ini) (ancho self)"
  by (simp add: bloque_eq forma_def list_all_length fila_def)

lemma fractal_julia_exacta_c [simp]:
  "fractal_julia_exacta (self\<lparr>c_real := a, c_imag := b\<rparr>) = fractal_julia_exacta self"
  by (simp add: fractal_julia_exacta_def fun_eq_iff)

lemma punto_c [simp]: "punto (self\<lparr>c_real := a, c_imag := b\<rparr>) = punto self"
  by (simp add: punto_def fun_eq_iff)

lemma fila_c [simp]: "fila (self\<lparr>c_real := a, c_imag := b\<rparr>) = fila self"
  by (simp add: fila_def fun_eq_iff)

lemma salida_secuencial:
  assumes "forma (salida self) (alto self) (ancho self)"
  shows "salida (generar_fractal_secuencial self cr ci) = imagen self (Complex cr ci)"
  using bucle_exterior[OF assms, where k = "alto self" and ini = 0
        and f = "\<lambda>x y. fractal_julia_exacta self (Complex cr ci) (punto self x y)"] assms
  by (simp add: generar_fractal_secuencial_def Let_def imagen_def fila_def forma_def)

lemma forma_imagen: "forma (imagen self c) (alto self) (ancho self)"
  by (simp add: imagen_def forma_def list_all_length fila_def)

text \<open>
  The output array keeps the shape \<open>(alto, ancho)\<close> it was allocated with, whatever
  happens to the instance.
\<close>

lemma forma_init:
  "init asignar an al mi = Inr self \<Longrightarrow> forma (salida self) (alto self) (ancho self)"
  by (auto simp: init_def forma_zeros split: if_splits option.splits)

lemma forma_secuencial:
  assumes "forma (salida self) (alto self) (ancho self)"
  shows "forma (salida (generar_fractal_secuencial self cr ci))
               (alto (generar_fractal_secuencial self cr ci))
               (ancho (generar_fractal_secuencial self cr ci))"
proof -
  have "alto (generar_fractal_secuencial self cr ci) = alto self"
       "ancho (generar_fractal_secuencial self cr ci) = ancho self"
    by (simp_all add: generar_fractal_secuencial_def Let_def)
  then show ?thesis
    using salida_secuencial[OF assms, of cr ci] forma_imagen[of self "Complex cr ci"] by simp
qed

lemma forma_completado:
  assumes "forma (salida self) (alto self) (ancho self)"
    and "fragmento_completado self r f t0 t1 = Inr self'"
  shows "forma (salida self') (alto self') (ancho self')"
proof -
  obtain a b where f: "f = (a, b)" by (cases f)
  from assms(2) obtain blk where r: "r = Inr blk"
    by (cases r) (simp_all add: fragmento_completado_def)
  let ?n = "length (salida self)"
  from assms(2) f r have blk: "forma blk (min b ?n - min a ?n) (ancho self)"
    and s': "self' = self\<lparr>salida := take a (salida self) @ blk @ drop (max a b) (salida self),
                tiempo_comunicacion_total := tiempo_comunicacion_total self + (t1 - t0)\<rparr>"
    by (auto simp: fragmento_completado_def Let_def split: if_splits)
  from assms(1) have n: "?n = alto self"
    and w: "\<forall>row\<in>set (salida self). length row = ancho self"
    by (auto simp: forma_def list_all_iff)
  from blk have lb: "length blk = min b ?n - min a ?n"
    and wb: "\<forall>row\<in>set blk. length row = ancho self"
    by (auto simp: forma_def list_all_iff)
  have len: "length (take a (salida self) @ blk @ drop (max a b) (salida self)) = alto self"
    using lb n by (simp add: min_def max_def)
  have wid: "\<forall>row\<in>set (take a (salida self) @ blk @ drop (max a b) (salida self)).
               length row = ancho self"
    using w wb by (auto dest: in_set_takeD in_set_dropD)
  show ?thesis
    unfolding s' using len wid by (simp add: forma_def list_all_iff)
qed

lemma forma_aplicar:
  assumes "forma (salida self) (alto self) (ancho self)"
  shows "forma (salida (aplicar a self)) (alto (aplicar a self)) (ancho (aplicar a self))"
proof (cases a)
  case (Secuencial cr ci)
  then show ?thesis using forma_secuencial[OF assms] by simp
next
  case (Paralelo cr ci)
  then show ?thesis using assms by simp
next
  case (Completado r f t0 t1)
  then show ?thesis
    using assms forma_completado[OF assms]
    by (cases "fragmento_completado self r f t0 t1") simp_all
qed

lemma forma_vida:
  assumes "init asignar an al mi = Inr self0"
  shows "forma (salida (vida as self0)) (alto (vida as self0)) (ancho (vida as self0))"
proof -
  have "forma (salida self) (alto self) (ancho self) \<Longrightarrow>
        forma (salida (vida as self)) (alto (vida as self)) (ancho (vida as self))" for self
    by (induction as arbitrary: self) (simp_all add: forma_aplicar)
  from this[OF forma_init[OF assms]] show ?thesis .
qed

section \<open>Steps of a run\<close>

lemma futuros_poner_fase [simp]:
  "futuros (poner_fase i ph s) = (futuros s)[i := (futuros s ! i)\<lparr>fase := ph\<rparr>]"
  by (simp add: poner_fase_def)

lemma objeto_poner_fase [simp]: "objeto (poner_fase i ph s) = objeto s"
  by (simp add: poner_fase_def)

lemma orq_poner_fase [simp]: "orq (poner_fase i ph s) = orq s"
  by (simp add: poner_fase_def)

lemma nth_update_si: "j < length xs \<Longrightarrow> xs[i := v] ! j = (if i = j then v else xs ! j)"
  by (cases "i = j") simp_all

lemma map_update_campo: "f v = f (xs ! k) \<Longrightarrow> map f (xs[k := v]) = map f xs"
  by (auto simp: list_eq_iff_nth_eq nth_update_si)

lemma paso_futuros:
  assumes "paso e s = Some s'"
  shows "map fragmento (futuros s') = map fragmento (futuros s)
       \<and> map resultado (futuros s') = map resultado (futuros s)
       \<and> map start_time (futuros s') = map start_time (futuros s)"
  using assms
  by (cases e)
     (auto simp: map_update_campo Let_def split: if_splits sum.splits orquestador.splits)

lemma paso_fusion:
  assumes "paso e s = Some s'"
  shows "(objeto s' = objeto s
          \<and> (\<forall>j<length (futuros s). fusionado (futuros s' ! j) \<longrightarrow> fusionado (futuros s ! j)))
       \<or> (\<exists>i t. i < length (futuros s)
             \<and> fragmento_completado (objeto s) (resultado (futuros s ! i))
                   (fragmento (futuros s ! i)) (start_time (futuros s ! i)) t = Inr (objeto s')
             \<and> (\<forall>j<length (futuros s). fusionado (futuros s' ! j) \<longrightarrow>
                    j = i \<or> fusionado (futuros s ! j)))"
proof (cases e)
  case (Termina i)
  with assms show ?thesis
    by (auto simp: fusionado_def nth_update_si split: if_splits)
next
  case (Fusiona i t)
  with assms have i: "i < length (futuros s)" and ph: "fase (futuros s ! i) = PorFusionar"
    by (auto split: if_splits)
  let ?f = "futuros s ! i"
  show ?thesis
  proof (cases "fragmento_completado (objeto s) (resultado ?f) (fragmento ?f) (start_time ?f) t")
    case (Inl err)
    with assms Fusiona i ph have "s' = poner_fase i Fallido s" by (simp add: Let_def)
    then show ?thesis by (auto simp: fusionado_def nth_update_si)
  next
    case (Inr self')
    with assms Fusiona i ph have s': "s' = poner_fase i Fusionado (s\<lparr>objeto := self'\<rparr>)"
      by (simp add: Let_def)
    show ?thesis
      using i Inr unfolding s'
      by (intro disjI2 exI[of _ i] exI[of _ t]) (auto simp: nth_update_si)
  qed
next
  case (Notifica i)
  with assms show ?thesis
    by (auto simp: fusionado_def nth_update_si split: if_splits)
next
  case (Registra t)
  with assms obtain k where k: "orq s = Registrando k" "k < length (futuros s)"
    by (auto split: orquestador.splits if_splits)
  let ?f = "futuros s ! k"
  from assms Registra k have ph: "fase ?f = Ejecutando \<or> fase ?f = Terminado"
    by (auto simp: Let_def split: if_splits)
  show ?thesis
  proof (cases "fase ?f = Ejecutando")
    case True
    with assms Registra k
    have "s' = s\<lparr>futuros := (futuros s)[k := ?f\<lparr>registrado := True\<rparr>],
                  orq := Registrando (k + 1)\<rparr>"
      by (simp add: Let_def)
    then show ?thesis by (auto simp: fusionado_def nth_update_si)
  next
    case False
    with ph have ter: "fase ?f = Terminado" by simp
    show ?thesis
    proof (cases "fragmento_completado (objeto s) (resultado ?f) (fragmento ?f) (start_time ?f) t")
      case (Inl err)
      with assms Registra k ter
      have "s' = poner_fase k Fallido (s\<lparr>orq := Registrando (k + 1)\<rparr>)"
        by (simp add: Let_def)
      then show ?thesis by (auto simp: fusionado_def nth_update_si)
    next
      case (Inr self')
      with assms Registra k ter
      have s': "s' = poner_fase k Notificado (s\<lparr>objeto := self', orq := Registrando (k + 1)\<rparr>)"
        by (simp add: Let_def)
      show ?thesis
        using k Inr unfolding s'
        by (intro disjI2 exI[of _ k] exI[of _ t]) (auto simp: nth_update_si)
    qed
  qed
next
  case Espera
  with assms show ?thesis
    by (auto split: if_splits orquestador.splits)
next
  case Despierta
  with assms show ?thesis
    by (auto split: if_splits)
qed

section \<open>The parallel run computes the grid of the sequential run\<close>

lemma fragmentos_rango:
  "i < 4 \<Longrightarrow> fst (fragmentos h ! i) \<le> snd (fragmentos h ! i) \<and> snd (fragmentos h ! i) \<le> h"
  by (auto dest!: menor_4 simp: fragmentos_nth)

lemma generar_fractal_Inr:
  assumes "c_real self = Some cr" and "c_imag self = Some ci" and "fst f \<le> snd f"
  shows "generar_fractal self f = resultado_de self (Complex cr ci) f"
  using assms by (cases f) (simp add: generar_fractal_def resultado_de_def bloque_eq)

lemma inv_lanzar:
  assumes "length (salida self) = alto self"
  shows "inv_corrida self (Complex cr ci) (lanzar self cr ci arranque)"
proof -
  let ?self1 = "self\<lparr>c_real := Some cr, c_imag := Some ci\<rparr>"
  have res: "generar_fractal ?self1 f = resultado_de self (Complex cr ci) f"
    if "f \<in> set (fragmentos (alto self))" for f
  proof -
    from that obtain i where "i < 4" "f = fragmentos (alto self) ! i"
      by (auto simp: in_set_conv_nth length_fragmentos)
    then have "fst f \<le> snd f" using fragmentos_rango[of i "alto self"] by simp
    then show ?thesis
      using generar_fractal_Inr[of ?self1 cr ci f] by (simp add: resultado_de_def)
  qed
  have fr: "map fragmento (futuros (lanzar self cr ci arranque)) = fragmentos (alto self)"
    by (simp add: lanzar_def Let_def enumerate_eq_zip map_snd_zip split_def comp_def)
  have re: "map resultado (futuros (lanzar self cr ci arranque))
            = map (resultado_de self (Complex cr ci)) (fragmentos (alto self))"
    using res
    by (simp add: lanzar_def Let_def list_eq_iff_nth_eq nth_enumerate_eq split_def)
  have fa: "\<not> fusionado (futuros (lanzar self cr ci arranque) ! i)" if "i < 4" for i
    using that
    by (simp add: lanzar_def Let_def nth_enumerate_eq split_def length_fragmentos fusionado_def)
  show ?thesis
    using fr re fa assms by (simp add: inv_corrida_def) (simp add: lanzar_def Let_def)
qed

lemma nth_fusion:
  assumes "length sal = h" and "a \<le> b" and "b \<le> h" and "length blk = b - a" and "y < h"
  shows "(take a sal @ blk @ drop (max a b) sal) ! y
         = (if a \<le> y \<and> y < b then blk ! (y - a) else sal ! y)"
  using assms by (auto simp: nth_append min_def max_def)

lemma fusion_resultado:
  assumes "fragmento_completado obj (resultado_de self c f) f t0 t1 = Inr obj'"
    and "length (salida obj) = h" and "fst f \<le> snd f" and "snd f \<le> h"
  shows "salida obj' = take (fst f) (salida obj) @ map (fila self c) [fst f..<snd f]
                         @ drop (max (fst f) (snd f)) (salida obj)"
    and "ancho obj' = ancho obj"
    and "tiempo_comunicacion_total obj' = tiempo_comunicacion_total obj + (t1 - t0)"
  using assms
  by (cases f; auto simp: fragmento_completado_def resultado_de_def Let_def split: if_splits)+

lemma inv_paso:
  assumes inv: "inv_corrida self c s" and paso: "paso e s = Some s'"
  shows "inv_corrida self c s'"
proof -
  let ?h = "alto self"
  from inv have fr: "map fragmento (futuros s) = fragmentos ?h"
    and re: "map resultado (futuros s) = map (resultado_de self c) (fragmentos ?h)"
    and an: "ancho (objeto s) = ancho self"
    and len: "length (salida (objeto s)) = ?h"
    and rows: "\<And>i y. i < 4 \<Longrightarrow> fusionado (futuros s ! i) \<Longrightarrow> y \<in> filas (fragmentos ?h ! i)
                 \<Longrightarrow> salida (objeto s) ! y = fila self c y"
    by (auto simp: inv_corrida_def)
  from fr have n4: "length (futuros s) = 4"
    using length_fragmentos[of ?h] by (metis length_map)
  from paso_futuros[OF paso] fr re
  have fr': "map fragmento (futuros s') = fragmentos ?h"
    and re': "map resultado (futuros s') = map (resultado_de self c) (fragmentos ?h)"
    by simp_all
  from paso_fusion[OF paso]
  consider (igual) "objeto s' = objeto s"
      "\<forall>j<length (futuros s). fusionado (futuros s' ! j) \<longrightarrow> fusionado (futuros s ! j)"
    | (fusion) i t where "i < length (futuros s)"
      "fragmento_completado (objeto s) (resultado (futuros s ! i))
          (fragmento (futuros s ! i)) (start_time (futuros s ! i)) t = Inr (objeto s')"
      "\<forall>j<length (futuros s). fusionado (futuros s' ! j) \<longrightarrow> j = i \<or> fusionado (futuros s ! j)"
    by blast
  then show ?thesis
  proof cases
    case igual
    then show ?thesis
      using fr' re' an len rows n4 by (auto simp: inv_corrida_def)
  next
    case fusion
    let ?f = "fragmentos ?h ! i"
    from fusion(1) n4 have i4: "i < 4" by simp
    have fi: "fragmento (futuros s ! i) = ?f"
      using fr fusion(1) by (metis nth_map)
    have ri: "resultado (futuros s ! i) = resultado_de self c ?f"
      using re fusion(1) i4 length_fragmentos[of ?h] by (metis nth_map)
    from fragmentos_rango[OF i4, of ?h] have ab: "fst ?f \<le> snd ?f" "snd ?f \<le> ?h" by simp_all
    note fus = fusion_resultado[OF fusion(2)[unfolded fi ri] len ab]
    have len': "length (salida (objeto s')) = ?h"
      using fus(1) len ab by simp
    have rows': "salida (objeto s') ! y = fila self c y"
      if j: "j < 4" and fj: "fusionado (futuros s' ! j)" and y: "y \<in> filas (fragmentos ?h ! j)"
      for j y
    proof -
      from fragmentos_rango[OF j, of ?h] y have yh: "y < ?h" by (auto simp: filas_def)
      have nth: "salida (objeto s') ! y
                 = (if fst ?f \<le> y \<and> y < snd ?f then map (fila self c) [fst ?f..<snd ?f] ! (y - fst ?f)
                    else salida (objeto s) ! y)"
        unfolding fus(1) using nth_fusion[OF len ab(1) ab(2) _ yh] by simp
      show ?thesis
      proof (cases "fst ?f \<le> y \<and> y < snd ?f")
        case True
        then have "y - fst ?f < snd ?f - fst ?f" and "fst ?f + (y - fst ?f) = y" by arith+
        then have "map (fila self c) [fst ?f..<snd ?f] ! (y - fst ?f) = fila self c y"
          by simp
        with True nth show ?thesis by simp
      next
        case False
        then have "y \<notin> filas ?f" by (auto simp: filas_def)
        with y have "j \<noteq> i" by auto
        with fusion(3) j fj n4 have "fusionado (futuros s ! j)" by auto
        from rows[OF j this y] False nth show ?thesis by auto
      qed
    qed
    show ?thesis
      using fr' re' an fus(2) len' rows' by (auto simp: inv_corrida_def)
  qed
qed

lemma inv_ejecutar:
  "inv_corrida self c s \<Longrightarrow> ejecutar es s = Some s' \<Longrightarrow> inv_corrida self c s'"
proof (induction es arbitrary: s)
  case Nil
  then show ?case by simp
next
  case (Cons e es)
  then show ?case by (auto split: option.splits dest: inv_paso)
qed

lemma inv_completo:
  assumes inv: "inv_corrida self c s" and todos: "todos_fusionados s"
  shows "salida (objeto s) = imagen self c"
proof (rule nth_equalityI)
  show "length (salida (objeto s)) = length (imagen self c)"
    using inv by (simp add: inv_corrida_def imagen_def)
next
  fix y assume "y < length (salida (objeto s))"
  with inv have yh: "y < alto self" by (simp add: inv_corrida_def)
  then have "y \<in> (\<Union>f\<in>set (fragmentos (alto self)). filas f)"
    by (simp only: fragmentos_union) simp
  then obtain i where i: "i < 4" and y: "y \<in> filas (fragmentos (alto self) ! i)"
    by (auto simp: in_set_conv_nth length_fragmentos)
  from inv have "length (futuros s) = 4"
    using length_fragmentos[of "alto self"] unfolding inv_corrida_def by (metis length_map)
  with todos i have "fusionado (futuros s ! i)"
    by (simp add: todos_fusionados_def list_all_length)
  with inv i y have "salida (objeto s) ! y = fila self c y"
    by (simp add: inv_corrida_def)
  with yh show "salida (objeto s) ! y = imagen self c ! y"
    by (simp add: imagen_def)
qed

text \<open>
  For every schedule of a parallel run: in a state in which every fragment has been
  merged, the shared grid is, cell by cell, the grid that the sequential run produces for
  the same \<open>c\<close>, which is the grid of the direct evaluation. (Claims C1 and C2 are about
  whether the run has reached such a state when \<open>generar_fractal_paralelo\<close> returns.)
\<close>

lemma paralelo_igual_secuencial:
  assumes "forma (salida self) (alto self) (ancho self)"
    and "ejecutar es (lanzar self cr ci arranque) = Some s"
    and "todos_fusionados s"
  shows "salida (objeto s) = salida (generar_fractal_secuencial self cr ci)
       \<and> salida (objeto s) = imagen self (Complex cr ci)"
proof -
  from assms(1) have "length (salida self) = alto self" by (simp add: forma_def)
  from inv_ejecutar[OF inv_lanzar[OF this] assms(2)] assms(3)
  have "salida (objeto s) = imagen self (Complex cr ci)" by (rule inv_completo)
  with salida_secuencial[OF assms(1)] show ?thesis by simp
qed

lemma length_fila [simp]: "length (fila self c y) = ancho self"
  by (simp add: fila_def)

lemma lanzar_ejemplo:
  "lanzar ejemplo 0 0 (\<lambda>i. 0) =
     \<lparr>objeto = ejemplo\<lparr>c_real := Some 0, c_imag := Some 0\<rparr>,
      futuros = map (\<lambda>f. \<lparr>fragmento = f, start_time = 0,
                            resultado = resultado_de ejemplo 0 f,
                            fase = Ejecutando, registrado = False\<rparr>)
                    [(0, 1), (1, 2), (2, 3), (3, 4)],
      orq = Registrando 0\<rparr>"
proof -
  have "generar_fractal (ejemplo\<lparr>c_real := Some 0, c_imag := Some 0\<rparr>) f
        = resultado_de ejemplo 0 f" if "fst f \<le> snd f" for f
    using generar_fractal_Inr[of "ejemplo\<lparr>c_real := Some 0, c_imag := Some 0\<rparr>" 0 0 f] that
    by (simp add: resultado_de_def zero_complex.code)
  then show ?thesis
    by (simp add: lanzar_def Let_def fragmentos_eq ejemplo_def)
qed

lemma ejecutar_plan_completo:
  "\<exists>s. ejecutar plan_completo (lanzar ejemplo 0 0 (\<lambda>i. 0)) = Some s
       \<and> todos_fusionados s \<and> orq s = Retornado"
  unfolding lanzar_ejemplo plan_completo_def
  by (simp add: poner_fase_def fragmento_completado_def resultado_de_def Let_def
        ejemplo_def zeros_def todos_fusionados_def fusionado_def forma_def eval_nat_numeral)

lemmas evaluar = poner_fase_def fragmento_completado_def resultado_de_def Let_def
  ejemplo_def zeros_def todos_fusionados_def fusionado_def forma_def eval_nat_numeral

lemma salida_paralelo:
  assumes "length (salida self) = alto self"
    and "ejecutar es (lanzar self cr ci arranque) = Some s"
    and "todos_fusionados s"
  shows "salida (objeto s) = imagen self (Complex cr ci)"
  using inv_ejecutar[OF inv_lanzar[OF assms(1)] assms(2)] assms(3) by (rule inv_completo)

lemma paso_bloqueado:
  assumes "orq s = Esperando" and "list_all (\<lambda>f. fase f = Notificado) (futuros s)"
  shows "paso e s = None"
  using assms by (cases e) (auto simp: list_all_length)

text \<open>
  Claim C2, evaluated on the code. The claim says that the wait returns only after all
  four fragments are merged and cannot block forever. On \<open>FractalJulia(4, 4, 10)\<close> with
  \<open>c = 0\<close> the schedule \<open>plan_prematuro\<close> ends with the orchestrator back from \<open>wait()\<close>
  while three tasks are still running; and the schedule \<open>plan_bloqueo\<close> ends with the
  orchestrator blocked in \<open>wait()\<close>, every fragment merged and notified, and no step left
  that could wake it.
\<close>

theorem espera_defectuosa:
  "(\<exists>s. ejecutar plan_prematuro (lanzar ejemplo 0 0 (\<lambda>i. 0)) = Some s
        \<and> orq s = Retornado
        \<and> map fase (futuros s) = [Notificado, Ejecutando, Ejecutando, Ejecutando]
        \<and> \<not> todos_fusionados s)
   \<and> (\<exists>s. ejecutar plan_bloqueo (lanzar ejemplo 0 0 (\<lambda>i. 0)) = Some s
        \<and> orq s = Esperando
        \<and> map fase (futuros s) = [Notificado, Notificado, Notificado, Notificado]
        \<and> todos_fusionados s
        \<and> (\<forall>e. paso e s = None))"
proof (rule conjI)
  show "\<exists>s. ejecutar plan_prematuro (lanzar ejemplo 0 0 (\<lambda>i. 0)) = Some s
        \<and> orq s = Retornado
        \<and> map fase (futuros s) = [Notificado, Ejecutando, Ejecutando, Ejecutando]
        \<and> \<not> todos_fusionados s"
    unfolding lanzar_ejemplo plan_prematuro_def by (simp add: evaluar)
next
  have "\<exists>s. ejecutar plan_bloqueo (lanzar ejemplo 0 0 (\<lambda>i. 0)) = Some s
        \<and> orq s = Esperando
        \<and> map fase (futuros s) = [Notificado, Notificado, Notificado, Notificado]
        \<and> todos_fusionados s"
    unfolding lanzar_ejemplo plan_bloqueo_def by (simp add: evaluar)
  then obtain s where s: "ejecutar plan_bloqueo (lanzar ejemplo 0 0 (\<lambda>i. 0)) = Some s"
    "orq s = Esperando"
    "map fase (futuros s) = [Notificado, Notificado, Notificado, Notificado]"
    "todos_fusionados s"
    by (elim exE conjE)
  from s(3) have "list_all (\<lambda>p. p = Notificado) (map fase (futuros s))" by simp
  then have "list_all (\<lambda>f. fase f = Notificado) (futuros s)"
    by (simp add: list.pred_map comp_def)
  with s(2) have d: "\<forall>e. paso e s = None" by (simp add: paso_bloqueado)
  show "\<exists>s. ejecutar plan_bloqueo (lanzar ejemplo 0 0 (\<lambda>i. 0)) = Some s
        \<and> orq s = Esperando
        \<and> map fase (futuros s) = [Notificado, Notificado, Notificado, Notificado]
        \<and> todos_fusionados s
        \<and> (\<forall>e. paso e s = None)"
    using s d by (intro exI[of _ s] conjI)
qed

section \<open>The cell (2, 2) of the 4 by 4 grid\<close>

text \<open>
  Claim C6 fails as stated: on the 4 by 4 grid the cell \<open>(x=2, y=2)\<close> is mapped to
  \<open>-0.5 + 0i\<close>, not to \<open>0 + 0i\<close> (the real axis starts at \<open>-2\<close> and a cell is \<open>3/4\<close> wide).
\<close>

theorem punto_2_2:
  "punto ejemplo 2 2 = Complex (- 1 / 2) 0 \<and> punto ejemplo 2 2 \<noteq> 0"
  by (simp add: punto_def ejemplo_def complex_eq_iff)

lemma punto_ejemplo_2_2: "punto ejemplo 2 2 = Complex (- 1 / 2) 0"
  by (simp add: punto_def ejemplo_def)

lemma imagen_2_2: "imagen ejemplo 0 ! 2 ! 2 = 10"
proof -
  have d: "alto ejemplo = 4" "ancho ejemplo = 4" by (simp_all add: ejemplo_def)
  have "imagen ejemplo 0 ! 2 ! 2 = fractal_julia_exacta ejemplo 0 (punto ejemplo 2 2)"
    by (simp add: imagen_def fila_def d numeral_2_eq_2)
  also have "\<dots> = bucle_exacto 10 0 (Complex (- 1 / 2) 0) 0"
    unfolding punto_ejemplo_2_2 by (simp add: fractal_julia_exacta_def ejemplo_def)
  also have "\<dots> = 10"
    using bucle_exacto_dentro[of "Complex (- 1 / 2) 0" 0 10]
    by (simp add: cmod_def)
  finally show ?thesis .
qed

text \<open>
  Claim C6, amended. On the instance \<open>FractalJulia(4, 4, 10)\<close> the cell \<open>(x=2, y=2)\<close> is
  mapped to \<open>-0.5 + 0i\<close>, and with \<open>c = 0 + 0i\<close> the count at that cell is 10 after the
  sequential run and after every parallel run whose fragments have all been merged.
\<close>

theorem celda_2_2:
  "init asignar_64 4 4 10 = Inr ejemplo
   \<and> (asignar 4 4 = None \<longrightarrow> init asignar 4 4 10 = Inr ejemplo)
   \<and> punto ejemplo 2 2 = Complex (- 1 / 2) 0
   \<and> salida (generar_fractal_secuencial ejemplo 0 0) ! 2 ! 2 = 10
   \<and> (ejecutar es (lanzar ejemplo 0 0 arranque) = Some s \<and> todos_fusionados s
        \<longrightarrow> salida (objeto s) ! 2 ! 2 = 10
          \<and> salida (objeto s) ! 2 ! 2 = salida (generar_fractal_secuencial ejemplo 0 0) ! 2 ! 2)"
proof -
  have c0: "Complex 0 0 = 0" by (simp add: zero_complex.code)
  have f: "forma (salida ejemplo) (alto ejemplo) (ancho ejemplo)"
    by (simp add: ejemplo_def forma_zeros)
  then have l: "length (salida ejemplo) = alto ejemplo" by (simp add: forma_def)
  have sec: "salida (generar_fractal_secuencial ejemplo 0 0) ! 2 ! 2 = 10"
    using salida_secuencial[OF f, of 0 0] imagen_2_2 by (simp add: c0)
  have par: "salida (objeto s) ! 2 ! 2 = 10"
    if "ejecutar es (lanzar ejemplo 0 0 arranque) = Some s" "todos_fusionados s"
    using salida_paralelo[OF l that] imagen_2_2 by (simp add: c0)
  show ?thesis
    using init_ejemplo_64 init_ejemplo[of asignar] punto_ejemplo_2_2 sec par by simp
qed

theorem celda_2_2_witness:
  "asignar_64 4 4 = None \<and> init asignar_64 4 4 10 = Inr ejemplo
   \<and> (\<exists>s. ejecutar plan_completo (lanzar ejemplo 0 0 (\<lambda>i. 0)) = Some s \<and> todos_fusionados s
         \<and> salida (objeto s) ! 2 ! 2 = 10
         \<and> salida (generar_fractal_secuencial ejemplo 0 0) ! 2 ! 2 = 10)"
proof -
  have a: "asignar_64 4 4 = None" by (simp add: asignar_64_def)
  from ejecutar_plan_completo obtain s where
    s: "ejecutar plan_completo (lanzar ejemplo 0 0 (\<lambda>i. 0)) = Some s" "todos_fusionados s"
    by (elim exE conjE)
  from celda_2_2[of asignar_64 plan_completo "\<lambda>i. 0" s] s a
  have i: "init asignar_64 4 4 10 = Inr ejemplo"
    and "salida (objeto s) ! 2 ! 2 = 10"
    and "salida (generar_fractal_secuencial ejemplo 0 0) ! 2 ! 2 = 10"
    by simp_all
  with s have "\<exists>s. ejecutar plan_completo (lanzar ejemplo 0 0 (\<lambda>i. 0)) = Some s
         \<and> todos_fusionados s
         \<and> salida (objeto s) ! 2 ! 2 = 10
         \<and> salida (generar_fractal_secuencial ejemplo 0 0) ! 2 ! 2 = 10"
    by (intro exI[of _ s] conjI)
  with a i show ?thesis by (intro conjI)
qed

section \<open>The grid when the parallel run returns\<close>

text \<open>
  Claim C1, evaluated on the code. The claim says that when the parallel run is over every
  cell of the shared grid equals the cell of the sequential run for the same \<open>c\<close>. On a
  new \<open>FractalJulia(4, 4, 10)\<close> with \<open>c = 0\<close>, under the schedule \<open>plan_prematuro\<close>, the
  orchestrator is back from \<open>wait()\<close> (and \<open>generar_fractal_paralelo\<close> goes on to return)
  when only fragment 0 has been merged: the cell \<open>(x=2, y=2)\<close> of the shared grid still
  holds 0, where the sequential run writes 10. This is the defect of claim C2 (one
  \<open>wait()\<close> for four completions) seen on the grid.
\<close>

theorem paralelo_retorna_incompleto:
  "\<exists>s. ejecutar plan_prematuro (lanzar ejemplo 0 0 (\<lambda>i. 0)) = Some s
       \<and> orq s = Retornado
       \<and> salida (objeto s) ! 2 ! 2 = 0
       \<and> salida (generar_fractal_secuencial ejemplo 0 0) ! 2 ! 2 = 10
       \<and> salida (objeto s) \<noteq> salida (generar_fractal_secuencial ejemplo 0 0)"
proof -
  have c0: "Complex 0 0 = 0" by (simp add: zero_complex.code)
  have f: "forma (salida ejemplo) (alto ejemplo) (ancho ejemplo)"
    by (simp add: ejemplo_def forma_zeros)
  have sec: "salida (generar_fractal_secuencial ejemplo 0 0) ! 2 ! 2 = 10"
    using salida_secuencial[OF f, of 0 0] imagen_2_2 by (simp add: c0)
  have "\<exists>s. ejecutar plan_prematuro (lanzar ejemplo 0 0 (\<lambda>i. 0)) = Some s
       \<and> orq s = Retornado \<and> salida (objeto s) ! 2 ! 2 = 0"
    unfolding lanzar_ejemplo plan_prematuro_def by (simp add: evaluar)
  then obtain s where s: "ejecutar plan_prematuro (lanzar ejemplo 0 0 (\<lambda>i. 0)) = Some s"
    "orq s = Retornado" "salida (objeto s) ! 2 ! 2 = 0"
    by (elim exE conjE)
  from s(3) sec have "salida (objeto s) \<noteq> salida (generar_fractal_secuencial ejemplo 0 0)"
    by auto
  with s sec show ?thesis by (intro exI[of _ s] conjI)
qed

section \<open>The communication-time accumulator\<close>

lemma tiempo_secuencial:
  "tiempo_comunicacion_total (generar_fractal_secuencial self cr ci)
   = tiempo_comunicacion_total self"
  by (simp add: generar_fractal_secuencial_def Let_def)

lemma tiempo_completado:
  "fragmento_completado self r f t0 t1 = Inr self' \<Longrightarrow>
   tiempo_comunicacion_total self' = tiempo_comunicacion_total self + (t1 - t0)"
  by (cases f) (auto simp: fragmento_completado_def Let_def split: sum.splits if_splits)

lemma tiempo_aplicar:
  "tiempo_comunicacion_total (aplicar a self)
   = tiempo_comunicacion_total self + sum_list (medida a self)"
proof (cases a)
  case (Secuencial cr ci)
  then show ?thesis by (simp add: tiempo_secuencial)
next
  case (Paralelo cr ci)
  then show ?thesis by simp
next
  case (Completado r f t0 t1)
  then show ?thesis
    by (cases "fragmento_completado self r f t0 t1") (simp_all add: tiempo_completado)
qed

lemma tiempo_vida:
  "tiempo_comunicacion_total (vida as self)
   = tiempo_comunicacion_total self + sum_list (medidas as self)"
  by (induction as arbitrary: self) (simp_all add: tiempo_aplicar)

lemma vida_append: "vida (as @ bs) self = vida bs (vida as self)"
  by (induction as arbitrary: self) simp_all

lemma medida_no_negativa: "reloj_ok a \<Longrightarrow> 0 \<le> sum_list (medida a self)"
  by (cases a) (auto split: sum.splits)

lemma medidas_no_negativas: "list_all reloj_ok as \<Longrightarrow> 0 \<le> sum_list (medidas as self)"
  by (induction as arbitrary: self) (simp_all add: medida_no_negativa)

lemma paso_vida:
  assumes "paso e s = Some s'"
  shows "\<exists>cs. list_all es_completado cs \<and> objeto s' = vida cs (objeto s)"
  using paso_fusion[OF assms]
proof (elim disjE exE conjE)
  assume "objeto s' = objeto s"
  then show ?thesis by (intro exI[of _ "[]"]) simp
next
  fix i t
  assume "fragmento_completado (objeto s) (resultado (futuros s ! i))
            (fragmento (futuros s ! i)) (start_time (futuros s ! i)) t = Inr (objeto s')"
  then show ?thesis
    by (intro exI[of _ "[Completado (resultado (futuros s ! i)) (fragmento (futuros s ! i))
                            (start_time (futuros s ! i)) t]"]) simp
qed

lemma ejecutar_vida:
  "ejecutar es s = Some s' \<Longrightarrow>
   \<exists>cs. list_all es_completado cs \<and> objeto s' = vida cs (objeto s)"
proof (induction es arbitrary: s)
  case Nil
  then show ?case by (intro exI[of _ "[]"]) simp
next
  case (Cons e es)
  then obtain s1 where s1: "paso e s = Some s1" "ejecutar es s1 = Some s'"
    by (auto split: option.splits)
  from paso_vida[OF s1(1)] obtain cs1 where
    c1: "list_all es_completado cs1" "objeto s1 = vida cs1 (objeto s)" by (elim exE conjE)
  from Cons.IH[OF s1(2)] obtain cs2 where
    c2: "list_all es_completado cs2" "objeto s' = vida cs2 (objeto s1)" by (elim exE conjE)
  show ?case
    using c1 c2 by (intro exI[of _ "cs1 @ cs2"]) (simp add: vida_append)
qed

lemma objeto_lanzar: "objeto (lanzar self cr ci arranque) = aplicar (Paralelo cr ci) self"
  by (simp add: lanzar_def Let_def)

text \<open>
  Claim C4, amended. \<open>generar_fractal_paralelo\<close> does not reset the accumulator: the start
  of a run leaves \<open>tiempo_comunicacion_total\<close> as it was, and the completions of the run add
  their communication times to that value. After the run the accumulator is its value
  before the run plus the sum of the per-fragment communication times of the run (so it
  is the sum of that run alone only when it was 0 before, as on the first run of an
  instance). This holds for the actions of a run and for every schedule of the run model.
\<close>

theorem acumulador_sin_reinicio:
  "tiempo_comunicacion_total (objeto (lanzar self cr ci arranque))
     = tiempo_comunicacion_total self
   \<and> tiempo_comunicacion_total (vida (Paralelo cr ci # cs) self)
     = tiempo_comunicacion_total self + sum_list (medidas cs (aplicar (Paralelo cr ci) self))
   \<and> (ejecutar es (lanzar self cr ci arranque) = Some s \<longrightarrow>
        (\<exists>ds. list_all es_completado ds
            \<and> objeto s = vida (Paralelo cr ci # ds) self
            \<and> tiempo_comunicacion_total (objeto s)
              = tiempo_comunicacion_total self
                + sum_list (medidas ds (aplicar (Paralelo cr ci) self))))"
proof (intro conjI impI)
  show "tiempo_comunicacion_total (objeto (lanzar self cr ci arranque))
        = tiempo_comunicacion_total self"
    by (simp add: objeto_lanzar)
  show "tiempo_comunicacion_total (vida (Paralelo cr ci # cs) self)
     = tiempo_comunicacion_total self + sum_list (medidas cs (aplicar (Paralelo cr ci) self))"
    by (simp add: tiempo_vida)
  assume "ejecutar es (lanzar self cr ci arranque) = Some s"
  from ejecutar_vida[OF this] obtain ds where
    ds: "list_all es_completado ds" "objeto s = vida ds (objeto (lanzar self cr ci arranque))"
    by (elim exE conjE)
  then show "\<exists>ds. list_all es_completado ds
            \<and> objeto s = vida (Paralelo cr ci # ds) self
            \<and> tiempo_comunicacion_total (objeto s)
              = tiempo_comunicacion_total self
                + sum_list (medidas ds (aplicar (Paralelo cr ci) self))"
    by (intro exI[of _ ds]) (simp add: objeto_lanzar tiempo_vida)
qed

lemma generar_ejemplo:
  "fst f \<le> snd f \<Longrightarrow>
   generar_fractal (ejemplo\<lparr>c_real := Some 0, c_imag := Some 0\<rparr>) f = resultado_de ejemplo 0 f"
  using generar_fractal_Inr[of "ejemplo\<lparr>c_real := Some 0, c_imag := Some 0\<rparr>" 0 0 f]
  by (simp add: resultado_de_def zero_complex.code)

lemma corrida_ejemplo_eq:
  "corrida_ejemplo t =
     [Paralelo 0 0,
      Completado (resultado_de ejemplo 0 (0, 1)) (0, 1) t (t + 1),
      Completado (resultado_de ejemplo 0 (1, 2)) (1, 2) t (t + 1),
      Completado (resultado_de ejemplo 0 (2, 3)) (2, 3) t (t + 1),
      Completado (resultado_de ejemplo 0 (3, 4)) (3, 4) t (t + 1)]"
proof -
  have "alto ejemplo = 4" by (simp add: ejemplo_def)
  then show ?thesis
    by (simp add: corrida_ejemplo_def fragmentos_eq generar_ejemplo)
qed

lemma vida_corrida_ejemplo:
  "tiempo_comunicacion_total (vida (corrida_ejemplo 0) ejemplo) = 4"
  "tiempo_comunicacion_total (vida (corrida_ejemplo 0 @ corrida_ejemplo 10) ejemplo) = 8"
  "sum_list (medidas (corrida_ejemplo 10) (vida (corrida_ejemplo 0) ejemplo)) = 4"
  unfolding corrida_ejemplo_eq by (simp_all add: evaluar)

text \<open>
  Claim C4 fails as stated: after two parallel runs on the same instance, each with four
  completions of communication time 1, the accumulator holds 8, while the per-fragment
  communication times of the second run sum to 4.
\<close>

theorem acumulador_segunda_corrida:
  "tiempo_comunicacion_total (vida (corrida_ejemplo 0 @ corrida_ejemplo 10) ejemplo) = 8
   \<and> sum_list (medidas (corrida_ejemplo 10) (vida (corrida_ejemplo 0) ejemplo)) = 4"
  by (simp add: vida_corrida_ejemplo)

theorem acumulador_sin_reinicio_witness:
  "\<exists>s. ejecutar plan_completo (lanzar ejemplo 0 0 (\<lambda>i. 0)) = Some s
     \<and> (\<exists>ds. list_all es_completado ds
            \<and> objeto s = vida (Paralelo 0 0 # ds) ejemplo
            \<and> tiempo_comunicacion_total (objeto s)
              = tiempo_comunicacion_total ejemplo
                + sum_list (medidas ds (aplicar (Paralelo 0 0) ejemplo)))"
proof -
  from ejecutar_plan_completo obtain s where
    s: "ejecutar plan_completo (lanzar ejemplo 0 0 (\<lambda>i. 0)) = Some s"
    by (elim exE conjE)
  from acumulador_sin_reinicio[of ejemplo 0 0 "\<lambda>i. 0" "[]" plan_completo s] s
  have "\<exists>ds. list_all es_completado ds
            \<and> objeto s = vida (Paralelo 0 0 # ds) ejemplo
            \<and> tiempo_comunicacion_total (objeto s)
              = tiempo_comunicacion_total ejemplo
                + sum_list (medidas ds (aplicar (Paralelo 0 0) ejemplo))"
    by simp
  with s show ?thesis by (intro exI[of _ s] conjI)
qed

text \<open>
  Claim C9 fails as stated: the amount a completion adds is a difference of two readings
  of the wall clock, and it is negative when the clock has been set back in between. With
  fragment 0 submitted at reading 5 and merged at reading 3 the accumulator goes from 0
  down to \<open>-2\<close>.
\<close>

theorem acumulador_decrece:
  "tiempo_comunicacion_total (vida [Paralelo 0 0] ejemplo) = 0
   \<and> tiempo_comunicacion_total (vida vida_reloj_atrasado ejemplo) = - 2"
proof -
  have eq: "vida_reloj_atrasado =
          [Paralelo 0 0, Completado (resultado_de ejemplo 0 (0, 1)) (0, 1) 5 3]"
    by (simp add: vida_reloj_atrasado_def generar_ejemplo)
  show ?thesis unfolding eq by (simp add: evaluar)
qed

text \<open>
  Claim C9, amended. Over the life of an instance (any sequence of sequential runs, starts
  of parallel runs and fragment completions, from its construction on) the accumulator
  is 0 at construction and is never reset: a completion adds its communication time
  \<open>time.time() - start_time\<close> and nothing else changes it, so at every moment it is the sum
  of the communication times of all completions so far, of all runs together. Each of them
  is non-negative, and the accumulator does not decrease, as long as the clock is not set
  back between the submission of a fragment and its merge.
\<close>

theorem acumulador_suma:
  assumes "init asignar an al mi = Inr self"
  shows "tiempo_comunicacion_total self = 0
       \<and> tiempo_comunicacion_total (vida as self) = sum_list (medidas as self)
       \<and> tiempo_comunicacion_total (vida (as @ bs) self)
           = tiempo_comunicacion_total (vida as self) + sum_list (medidas bs (vida as self))
       \<and> (list_all reloj_ok as \<longrightarrow> 0 \<le> tiempo_comunicacion_total (vida as self))
       \<and> (list_all reloj_ok bs \<longrightarrow>
            tiempo_comunicacion_total (vida as self)
              \<le> tiempo_comunicacion_total (vida (as @ bs) self))"
proof -
  from assms have z: "tiempo_comunicacion_total self = 0"
    by (auto simp: init_def split: if_splits option.splits)
  have a: "tiempo_comunicacion_total (vida as self) = sum_list (medidas as self)"
    using z by (simp add: tiempo_vida)
  have b: "tiempo_comunicacion_total (vida (as @ bs) self)
           = tiempo_comunicacion_total (vida as self) + sum_list (medidas bs (vida as self))"
    by (simp add: vida_append tiempo_vida[of bs])
  from z a b medidas_no_negativas[of as self] medidas_no_negativas[of bs "vida as self"]
  show ?thesis by simp
qed

theorem acumulador_suma_witness:
  "init asignar_64 4 4 10 = Inr ejemplo
   \<and> list_all reloj_ok (corrida_ejemplo 0) \<and> list_all reloj_ok (corrida_ejemplo 10)
   \<and> tiempo_comunicacion_total (vida (corrida_ejemplo 0) ejemplo) = 4
   \<and> tiempo_comunicacion_total (vida (corrida_ejemplo 0 @ corrida_ejemplo 10) ejemplo) = 8
   \<and> tiempo_comunicacion_total (vida (corrida_ejemplo 0) ejemplo)
       \<le> tiempo_comunicacion_total (vida (corrida_ejemplo 0 @ corrida_ejemplo 10) ejemplo)"
proof -
  have r: "list_all reloj_ok (corrida_ejemplo 0)" "list_all reloj_ok (corrida_ejemplo 10)"
    by (simp_all add: corrida_ejemplo_eq)
  from acumulador_suma[OF init_ejemplo_64, of "corrida_ejemplo 0" "corrida_ejemplo 10"]
    init_ejemplo_64 r show ?thesis
    by (simp add: vida_corrida_ejemplo)
qed

end
